theory Spec2Isabelle
  imports Main "HOL-Library.AList"
begin

section \<open>The X11 user-session helper of sddm\<close>

text \<open>
  The development embeds \<^verbatim>\<open>src/helper-x11/xorguserhelper.cpp\<close> (class
  \<^verbatim>\<open>XOrgUserHelper\<close>) and, for its start path, the single-file helper
  \<^verbatim>\<open>HelperStartXorgUser.cpp\<close> with a class of the same name, which differs in where
  the authority cookie is written and in the client's exit handler.

  The helper is effectful: it spawns processes, reads a pipe, writes a descriptor and
  removes a file. The model passes the object's fields explicitly and appends every
  effect to a \<open>trace\<close>, in program order. What the operating system and Qt answer
  (did the process start, did it finish in time and how, what did the pipe deliver) is
  read from a \<open>world\<close>, over which every theorem quantifies.

  Not modelled: the log output (\<^verbatim>\<open>qInfo\<close>, \<^verbatim>\<open>qCritical\<close>), the tokenising of a
  command string by \<^verbatim>\<open>QProcess::splitCommand\<close> (the trace keeps the command string
  that \<^verbatim>\<open>startProcess\<close> receives), the local-8-bit decoding of the display
  bytes (bytes and characters coincide), and the event loop: an exit that Qt reports
  outside a \<^verbatim>\<open>waitForFinished\<close> call is the function \<open>finished\<close>, which no
  function of the model calls on its own.
\<close>

subsection \<open>Qt values\<close>

datatype ExitStatus = NormalExit | CrashExit

text \<open>
  The two slots the source connects to \<^verbatim>\<open>QProcess::finished\<close>: the lambda of
  \<^verbatim>\<open>startProcess\<close> and the lambda of \<^verbatim>\<open>startClient\<close>.
\<close>

datatype observer = QuitOnFault | ClientFinished

type_synonym QProcessEnvironment = "(string \<times> string) list"

definition env_insert :: "string \<Rightarrow> string \<Rightarrow> QProcessEnvironment \<Rightarrow> QProcessEnvironment" where
  "env_insert k v e = AList.update k v e"

text \<open>\<^verbatim>\<open>QProcessEnvironment::value\<close>: the empty string for a variable that is not set.\<close>

definition env_value :: "QProcessEnvironment \<Rightarrow> string \<Rightarrow> string" where
  "env_value e k = (case map_of e k of None \<Rightarrow> [] | Some v \<Rightarrow> v)"

record QProcess =
  pid :: nat
  pcmd :: string
  penv :: QProcessEnvironment
  observers :: "observer list"

fun QStringList_join :: "string \<Rightarrow> string list \<Rightarrow> string" where
  "QStringList_join sep [] = []"
| "QStringList_join sep [x] = x"
| "QStringList_join sep (x # y # ys) = x @ sep @ QStringList_join sep (y # ys)"

fun digits :: "nat \<Rightarrow> string" where
  "digits n = (if n < 10 then [''0123456789'' ! n]
               else digits (n div 10) @ [''0123456789'' ! (n mod 10)])"

declare digits.simps [simp del]

text \<open>\<^verbatim>\<open>QString::number(int)\<close>, base 10.\<close>

definition QString_number :: "int \<Rightarrow> string" where
  "QString_number i = (if i < 0 then CHR ''-'' # digits (nat (- i)) else digits (nat i))"

definition QByteArray_prepend :: "string \<Rightarrow> string \<Rightarrow> string" where
  "QByteArray_prepend a b = a @ b"

text \<open>\<^verbatim>\<open>QByteArray::remove(pos, len)\<close>: nothing happens when \<open>pos\<close> is out of range.\<close>

definition QByteArray_remove :: "nat \<Rightarrow> nat \<Rightarrow> string \<Rightarrow> string" where
  "QByteArray_remove pos len b = (if pos < length b then take pos b @ drop (pos + len) b else b)"

subsection \<open>Effects and the outside world\<close>

datatype event =
    XAuthSetup
  | AddCookie string
  | Start QProcess
  | Terminate nat
  | Kill nat
  | DeleteLater nat
  | Close int
  | Write int string
  | RemoveFile string
  | Quit
  | NullDereference

text \<open>
  \<open>pipe_res\<close>: the descriptors \<open>(pipeFds[0], pipeFds[1])\<close>, or \<open>None\<close> when
  \<^verbatim>\<open>::pipe\<close> fails. \<open>waitForStarted p\<close>: whether process \<open>p\<close> starts within the ten
  seconds the source waits. \<open>waitForFinished p ms\<close>: \<open>Some (code, status)\<close> when the
  call returns true, the process having finished with that result; \<open>None\<close> when it
  returns false (the time ran out, or the process was not running any more).
  \<open>open_ok\<close>: whether the read end opens. \<open>readLine\<close>: the bytes the line read
  returns. \<open>addCookie d\<close>: whether \<^verbatim>\<open>XAuth::addCookie\<close> succeeds for display \<open>d\<close>.
  \<open>DisplayCommand\<close>, \<open>DisplayStopCommand\<close>: the values of \<^verbatim>\<open>mainConfig.X11\<close>.
  \<open>sysenv\<close>: \<^verbatim>\<open>QProcessEnvironment::systemEnvironment()\<close>.
\<close>

record world =
  sysenv :: QProcessEnvironment
  pipe_res :: "(int \<times> int) option"
  waitForStarted :: "nat \<Rightarrow> bool"
  waitForFinished :: "nat \<Rightarrow> nat \<Rightarrow> (int \<times> ExitStatus) option"
  open_ok :: bool
  readLine :: string
  addCookie :: "string \<Rightarrow> bool"
  DisplayCommand :: string
  DisplayStopCommand :: string

text \<open>
  The fields of \<^verbatim>\<open>XOrgUserHelper\<close>. \<open>m_xauth\<close> is reduced to the path
  \<^verbatim>\<open>m_xauth.authPath()\<close> returns; \<open>nextPid\<close> numbers the objects \<^verbatim>\<open>new QProcess\<close>
  creates.
\<close>

record XOrgUserHelper =
  m_fd :: int
  m_serverCmd :: string
  m_clientCmd :: string
  m_display :: string
  m_xauth :: string
  m_serverProcess :: "QProcess option"
  m_clientProcess :: "QProcess option"
  nextPid :: nat
  trace :: "event list"

definition emit :: "event \<Rightarrow> XOrgUserHelper \<Rightarrow> XOrgUserHelper" where
  "emit e s = s\<lparr>trace := trace s @ [e]\<rparr>"

text \<open>The effects a call added: the trace after it, without the trace before it.\<close>

definition emitted :: "XOrgUserHelper \<Rightarrow> XOrgUserHelper \<Rightarrow> event list" where
  "emitted s s' = drop (length (trace s)) (trace s')"

text \<open>
  The constructor; the initial values of the members are those of the class
  declaration in \<^verbatim>\<open>HelperStartXorgUser.cpp\<close>.
\<close>

definition XOrgUserHelper_new :: "int \<Rightarrow> string \<Rightarrow> string \<Rightarrow> string \<Rightarrow> XOrgUserHelper" where
  "XOrgUserHelper_new fd serverCmd clientCmd authPath =
     \<lparr>m_fd = fd, m_serverCmd = serverCmd, m_clientCmd = clientCmd, m_display = '':0'',
      m_xauth = authPath, m_serverProcess = None, m_clientProcess = None,
      nextPid = 0, trace = []\<rparr>"

subsection \<open>Exit notification\<close>

text \<open>
  The bodies of the two connected lambdas. The client's one calls
  \<^verbatim>\<open>m_serverProcess->terminate()\<close> without a null check; on a null pointer the model
  records \<open>NullDereference\<close>.
\<close>

fun run_observer :: "int \<Rightarrow> ExitStatus \<Rightarrow> XOrgUserHelper \<Rightarrow> observer \<Rightarrow> XOrgUserHelper" where
  "run_observer exitCode exitStatus s QuitOnFault =
     (if exitCode \<noteq> 0 \<or> exitStatus \<noteq> NormalExit then emit Quit s else s)"
| "run_observer code status s ClientFinished =
     (case m_serverProcess s of
        None \<Rightarrow> emit NullDereference s
      | Some sp \<Rightarrow> emit Quit (emit (Terminate (pid sp)) s))"

text \<open>The signal \<^verbatim>\<open>finished(exitCode, exitStatus)\<close> of a process: its slots, in connection order.\<close>

definition finished :: "QProcess \<Rightarrow> int \<Rightarrow> ExitStatus \<Rightarrow> XOrgUserHelper \<Rightarrow> XOrgUserHelper" where
  "finished p exitCode exitStatus s = foldl (run_observer exitCode exitStatus) s (observers p)"

definition QProcess_terminate :: "QProcess \<Rightarrow> XOrgUserHelper \<Rightarrow> XOrgUserHelper" where
  "QProcess_terminate p s = emit (Terminate (pid p)) s"

definition QProcess_kill :: "QProcess \<Rightarrow> XOrgUserHelper \<Rightarrow> XOrgUserHelper" where
  "QProcess_kill p s = emit (Kill (pid p)) s"

definition QProcess_deleteLater :: "QProcess \<Rightarrow> XOrgUserHelper \<Rightarrow> XOrgUserHelper" where
  "QProcess_deleteLater p s = emit (DeleteLater (pid p)) s"

text \<open>
  \<^verbatim>\<open>QProcess::waitForFinished(msecs)\<close> blocks until the process has finished and
  \<^verbatim>\<open>finished()\<close> has been emitted, or until the time has passed.
\<close>

definition QProcess_waitForFinished ::
  "world \<Rightarrow> QProcess \<Rightarrow> nat \<Rightarrow> XOrgUserHelper \<Rightarrow> bool \<times> XOrgUserHelper" where
  "QProcess_waitForFinished w p msecs s =
     (case waitForFinished w (pid p) msecs of
        None \<Rightarrow> (False, s)
      | Some (exitCode, exitStatus) \<Rightarrow> (True, finished p exitCode exitStatus s))"

subsection \<open>\<^verbatim>\<open>xorguserhelper.cpp\<close>\<close>

text \<open>
  \<^verbatim>\<open>startProcess\<close> returns the new process where the source returns true and stores it
  through the pointer argument, and \<open>None\<close> where the source returns false.
\<close>

definition startProcess ::
  "world \<Rightarrow> string \<Rightarrow> QProcessEnvironment \<Rightarrow> XOrgUserHelper \<Rightarrow> QProcess option \<times> XOrgUserHelper" where
  "startProcess w cmd env s =
     (let process = \<lparr>pid = nextPid s, pcmd = cmd, penv = env, observers = [QuitOnFault]\<rparr>;
          s1 = emit (Start process) (s\<lparr>nextPid := Suc (nextPid s)\<rparr>)
      in if \<not> waitForStarted w (pid process) then (None, s1) else (Some process, s1))"

definition startServer :: "world \<Rightarrow> XOrgUserHelper \<Rightarrow> bool \<times> XOrgUserHelper" where
  "startServer w s =
     (case pipe_res w of
        None \<Rightarrow> (False, s)
      | Some (pipeFds0, pipeFds1) \<Rightarrow>
          let serverEnv = env_insert ''XORG_RUN_AS_USER_OK'' ''1'' (sysenv w);
              args = [''-auth'', m_xauth s, ''-displayfd'', QString_number pipeFds1]
                     @ [''vt'' @ env_value serverEnv ''XDG_VTNR'']
                     @ [''-logfile'', ''/dev/null''];
              s1 = s\<lparr>m_serverCmd := m_serverCmd s @ '' '' @ QStringList_join '' '' args\<rparr>
          in (case startProcess w (m_serverCmd s1) serverEnv s1 of
               (None, s2) \<Rightarrow> (False, emit (Close pipeFds0) s2)
             | (Some p, s2) \<Rightarrow>
                 let s3 = emit (Close pipeFds1) (s2\<lparr>m_serverProcess := Some p\<rparr>) in
                 if \<not> open_ok w then (False, emit (Close pipeFds0) s3)
                 else
                   let displayNumber = readLine w in
                   if length displayNumber < 2 then (False, emit (Close pipeFds0) s3)
                   else
                     let displayNumber1 = QByteArray_prepend '':'' displayNumber;
                         displayNumber2 =
                           QByteArray_remove (length displayNumber1 - 1) 1 displayNumber1;
                         s4 = s3\<lparr>m_display := displayNumber2\<rparr>;
                         s5 = emit (AddCookie (m_display s4)) s4
                     in if \<not> addCookie w (m_display s4) then (False, s5)
                        else
                          let s6 = (if m_fd s5 > 0 then emit (Write (m_fd s5) displayNumber2) s5
                                    else s5)
                          in (True, emit (Close pipeFds0) s6)))"

definition startDisplayCommand :: "world \<Rightarrow> XOrgUserHelper \<Rightarrow> XOrgUserHelper" where
  "startDisplayCommand w s =
     (let env = env_insert ''XAUTHORITY'' (m_xauth s)
                  (env_insert ''DISPLAY'' (m_display s) (sysenv w));
          s3 = (case startProcess w ''xsetroot -cursor_name left_ptr'' env s of
                  (None, s1) \<Rightarrow> s1
                | (Some setCursor, s1) \<Rightarrow>
                    (case QProcess_waitForFinished w setCursor 1000 s1 of
                       (fin, s2) \<Rightarrow>
                         QProcess_deleteLater setCursor
                           (if \<not> fin then QProcess_kill setCursor s2 else s2)));
          cmd = DisplayCommand w
      in case startProcess w cmd env s3 of
           (None, s4) \<Rightarrow> s4
         | (Some displayScript, s4) \<Rightarrow>
             (case QProcess_waitForFinished w displayScript 30000 s4 of
                (fin, s5) \<Rightarrow>
                  QProcess_deleteLater displayScript
                    (if \<not> fin then QProcess_kill displayScript s5 else s5)))"

definition displayFinished :: "world \<Rightarrow> XOrgUserHelper \<Rightarrow> XOrgUserHelper" where
  "displayFinished w s =
     (let env = env_insert ''QT_QPA_PLATFORM'' ''xcb''
                  (env_insert ''XAUTHORITY'' (m_xauth s)
                     (env_insert ''DISPLAY'' (m_display s) (sysenv w)));
          cmd = DisplayStopCommand w;
          s3 = (case startProcess w cmd env s of
                  (None, s1) \<Rightarrow> s1
                | (Some displayStopScript, s1) \<Rightarrow>
                    (case QProcess_waitForFinished w displayStopScript 5000 s1 of
                       (fin, s2) \<Rightarrow>
                         QProcess_deleteLater displayStopScript
                           (if \<not> fin then QProcess_kill displayStopScript s2 else s2)))
      in emit (RemoveFile (m_xauth s3)) s3)"

definition startClient :: "world \<Rightarrow> XOrgUserHelper \<Rightarrow> bool \<times> XOrgUserHelper" where
  "startClient w s =
     (let env = env_insert ''XAUTHORITY'' (m_xauth s)
                  (env_insert ''DISPLAY'' (m_display s) (sysenv w))
      in case startProcess w (m_clientCmd s) env s of
           (None, s1) \<Rightarrow> (False, s1)
         | (Some p, s1) \<Rightarrow>
             (True, s1\<lparr>m_clientProcess := Some (p\<lparr>observers := observers p @ [ClientFinished]\<rparr>)\<rparr>))"

definition start :: "world \<Rightarrow> XOrgUserHelper \<Rightarrow> bool \<times> XOrgUserHelper" where
  "start w s =
     (let s1 = emit XAuthSetup s in
      case startServer w s1 of
        (False, s2) \<Rightarrow> (False, s2)
      | (True, s2) \<Rightarrow>
          let s3 = startDisplayCommand w s2 in
          (case startClient w s3 of
             (False, s4) \<Rightarrow> (False, s4)
           | (True, s4) \<Rightarrow> (True, s4)))"

definition stop :: "world \<Rightarrow> XOrgUserHelper \<Rightarrow> XOrgUserHelper" where
  "stop w s =
     (let s4 = (case m_clientProcess s of
                  None \<Rightarrow> s
                | Some c \<Rightarrow>
                    let s1 = QProcess_terminate c s in
                    (case QProcess_waitForFinished w c 5000 s1 of
                       (fin, s2) \<Rightarrow>
                         let s3 = QProcess_deleteLater c
                                    (if \<not> fin then QProcess_kill c s2 else s2)
                         in s3\<lparr>m_clientProcess := None\<rparr>))
      in case m_serverProcess s4 of
           None \<Rightarrow> s4
         | Some sv \<Rightarrow>
             let s5 = QProcess_terminate sv s4 in
             (case QProcess_waitForFinished w sv 5000 s5 of
                (fin, s6) \<Rightarrow>
                  let s7 = QProcess_deleteLater sv
                             (if \<not> fin then QProcess_kill sv s6 else s6)
                  in displayFinished w (s7\<lparr>m_serverProcess := None\<rparr>)))"

subsection \<open>\<^verbatim>\<open>HelperStartXorgUser.cpp\<close>\<close>

text \<open>
  The single-file helper has the same \<^verbatim>\<open>startProcess\<close>, \<^verbatim>\<open>startDisplayCommand\<close> and
  \<^verbatim>\<open>stop\<close>. Its \<^verbatim>\<open>start\<close> writes the cookie before the server is started, for the
  display name the object holds then; its \<^verbatim>\<open>startServer\<close> writes none; its
  \<^verbatim>\<open>startClient\<close> connects no second slot. Its \<^verbatim>\<open>displayFinished\<close>, which sets no
  \<^verbatim>\<open>QT_QPA_PLATFORM\<close>, is not embedded.
\<close>

definition startServer_HelperStartXorgUser :: "world \<Rightarrow> XOrgUserHelper \<Rightarrow> bool \<times> XOrgUserHelper" where
  "startServer_HelperStartXorgUser w s =
     (case pipe_res w of
        None \<Rightarrow> (False, s)
      | Some (pipeFds0, pipeFds1) \<Rightarrow>
          let serverEnv = env_insert ''XORG_RUN_AS_USER_OK'' ''1'' (sysenv w);
              args = [''-auth'', m_xauth s, ''-displayfd'', QString_number pipeFds1]
                     @ [''vt'' @ env_value serverEnv ''XDG_VTNR'']
                     @ [''-logfile'', ''/dev/null''];
              s1 = s\<lparr>m_serverCmd := m_serverCmd s @ '' '' @ QStringList_join '' '' args\<rparr>
          in (case startProcess w (m_serverCmd s1) serverEnv s1 of
               (None, s2) \<Rightarrow> (False, emit (Close pipeFds0) s2)
             | (Some p, s2) \<Rightarrow>
                 let s3 = emit (Close pipeFds1) (s2\<lparr>m_serverProcess := Some p\<rparr>) in
                 if \<not> open_ok w then (False, emit (Close pipeFds0) s3)
                 else
                   let displayNumber = readLine w in
                   if length displayNumber < 2 then (False, emit (Close pipeFds0) s3)
                   else
                     let displayNumber1 = QByteArray_prepend '':'' displayNumber;
                         displayNumber2 =
                           QByteArray_remove (length displayNumber1 - 1) 1 displayNumber1;
                         s4 = s3\<lparr>m_display := displayNumber2\<rparr>;
                         s5 = (if m_fd s4 > 0 then emit (Write (m_fd s4) displayNumber2) s4
                               else s4)
                     in (True, emit (Close pipeFds0) s5)))"

definition startClient_HelperStartXorgUser :: "world \<Rightarrow> XOrgUserHelper \<Rightarrow> bool \<times> XOrgUserHelper" where
  "startClient_HelperStartXorgUser w s =
     (let env = env_insert ''XAUTHORITY'' (m_xauth s)
                  (env_insert ''DISPLAY'' (m_display s) (sysenv w))
      in case startProcess w (m_clientCmd s) env s of
           (None, s1) \<Rightarrow> (False, s1)
         | (Some p, s1) \<Rightarrow> (True, s1\<lparr>m_clientProcess := Some p\<rparr>))"

definition start_HelperStartXorgUser :: "world \<Rightarrow> XOrgUserHelper \<Rightarrow> bool \<times> XOrgUserHelper" where
  "start_HelperStartXorgUser w s =
     (let s1 = emit XAuthSetup s;
          s2 = emit (AddCookie (m_display s1)) s1
      in if \<not> addCookie w (m_display s1) then (False, s2)
         else
           (case startServer_HelperStartXorgUser w s2 of
              (False, s3) \<Rightarrow> (False, s3)
            | (True, s3) \<Rightarrow>
                let s4 = startDisplayCommand w s3 in
                (case startClient_HelperStartXorgUser w s4 of
                   (False, s5) \<Rightarrow> (False, s5)
                 | (True, s5) \<Rightarrow> (True, s5))))"

subsection \<open>Reading a trace\<close>

fun started :: "event list \<Rightarrow> QProcess list" where
  "started [] = []"
| "started (Start p # es) = p # started es"
| "started (e # es) = started es"

fun cookies :: "event list \<Rightarrow> string list" where
  "cookies [] = []"
| "cookies (AddCookie d # es) = d # cookies es"
| "cookies (e # es) = cookies es"

fun writes :: "event list \<Rightarrow> (int \<times> string) list" where
  "writes [] = []"
| "writes (Write fd b # es) = (fd, b) # writes es"
| "writes (e # es) = writes es"

fun terminated :: "event list \<Rightarrow> nat list" where
  "terminated [] = []"
| "terminated (Terminate p # es) = p # terminated es"
| "terminated (e # es) = terminated es"

fun killed :: "event list \<Rightarrow> nat list" where
  "killed [] = []"
| "killed (Kill p # es) = p # killed es"
| "killed (e # es) = killed es"

fun removed :: "event list \<Rightarrow> string list" where
  "removed [] = []"
| "removed (RemoveFile f # es) = f # removed es"
| "removed (e # es) = removed es"

subsection \<open>The handshake line as the specification words it\<close>

text \<open>
  The specification says that trailing whitespace and the newline are stripped from
  the handshake bytes before the colon is prefixed. \<open>spec_trimmed\<close> follows these
  words; the source removes the last byte, whatever it is (\<open>startServer\<close> above).
\<close>

definition is_space :: "char \<Rightarrow> bool" where
  "is_space c \<longleftrightarrow> c \<in> set [CHR 0x09, CHR 0x0A, CHR 0x0B, CHR 0x0C, CHR 0x0D, CHR '' '']"

definition is_digit :: "char \<Rightarrow> bool" where
  "is_digit c \<longleftrightarrow> c \<in> set ''0123456789''"

definition spec_trimmed :: "string \<Rightarrow> string" where
  "spec_trimmed b = rev (dropWhile is_space (rev b))"

subsection \<open>Effects in closed form\<close>

text \<open>
  Auxiliary descriptions used by the proofs: the events of one slot, of one wait, of
  the start-wait-kill-delete run of a script, and of the terminate-wait-kill-delete
  run in \<^verbatim>\<open>stop\<close>; the command line and the process object of the server. The lemmas
  below show that the functions of the model produce exactly these.
\<close>

fun observer_events :: "int \<Rightarrow> ExitStatus \<Rightarrow> QProcess option \<Rightarrow> observer \<Rightarrow> event list" where
  "observer_events c st sp QuitOnFault = (if c \<noteq> 0 \<or> st \<noteq> NormalExit then [Quit] else [])"
| "observer_events c st None ClientFinished = [NullDereference]"
| "observer_events c st (Some sp) ClientFinished = [Terminate (pid sp), Quit]"

definition wait_events :: "world \<Rightarrow> QProcess \<Rightarrow> nat \<Rightarrow> QProcess option \<Rightarrow> event list" where
  "wait_events w p ms sp =
     (case waitForFinished w (pid p) ms of
        None \<Rightarrow> []
      | Some (c, st) \<Rightarrow> concat (map (observer_events c st sp) (observers p)))"

definition script_events :: "world \<Rightarrow> nat \<Rightarrow> nat \<Rightarrow> event list" where
  "script_events w n ms =
     (if waitForStarted w n
      then (case waitForFinished w n ms of
              None \<Rightarrow> [Kill n]
            | Some (c, st) \<Rightarrow> (if c \<noteq> 0 \<or> st \<noteq> NormalExit then [Quit] else []))
           @ [DeleteLater n]
      else [])"

definition halt_events :: "world \<Rightarrow> QProcess \<Rightarrow> nat \<Rightarrow> QProcess option \<Rightarrow> event list" where
  "halt_events w p ms sp =
     Terminate (pid p) # wait_events w p ms sp
       @ (if waitForFinished w (pid p) ms = None then [Kill (pid p)] else [])
       @ [DeleteLater (pid p)]"

definition server_command :: "world \<Rightarrow> XOrgUserHelper \<Rightarrow> int \<Rightarrow> string" where
  "server_command w s fd =
     m_serverCmd s @ '' -auth '' @ m_xauth s @ '' -displayfd '' @ QString_number fd
       @ '' vt'' @ env_value (sysenv w) ''XDG_VTNR'' @ '' -logfile /dev/null''"

definition server_process :: "world \<Rightarrow> XOrgUserHelper \<Rightarrow> int \<Rightarrow> QProcess" where
  "server_process w s fd =
     \<lparr>pid = nextPid s, pcmd = server_command w s fd,
      penv = env_insert ''XORG_RUN_AS_USER_OK'' ''1'' (sysenv w), observers = [QuitOnFault]\<rparr>"

definition client_env :: "world \<Rightarrow> XOrgUserHelper \<Rightarrow> string \<Rightarrow> QProcessEnvironment" where
  "client_env w s d = env_insert ''XAUTHORITY'' (m_xauth s) (env_insert ''DISPLAY'' d (sysenv w))"

text \<open>
  The processes a helper holds, and the shape every helper reached from the
  constructor has: the held processes are distinct and older than the next one.
\<close>

definition live :: "XOrgUserHelper \<Rightarrow> QProcess list" where
  "live s = (case m_clientProcess s of None \<Rightarrow> [] | Some c \<Rightarrow> [c])
            @ (case m_serverProcess s of None \<Rightarrow> [] | Some sv \<Rightarrow> [sv])"

definition wellformed :: "XOrgUserHelper \<Rightarrow> bool" where
  "wellformed s \<longleftrightarrow> distinct (map pid (live s)) \<and> list_all (\<lambda>p. pid p < nextPid s) (live s)"

subsection \<open>Example sessions\<close>

text \<open>
  A session in which everything succeeds: the server reports display 7 on descriptor
  4, both set-up processes exit with code 0, and server and client do not react to
  \<^verbatim>\<open>terminate\<close> in time. The other worlds differ from it in one answer each.
\<close>

definition example_world :: world where
  "example_world =
     \<lparr>sysenv = [(''XDG_VTNR'', ''2'')], pipe_res = Some (3, 4),
      waitForStarted = (\<lambda>p. True),
      waitForFinished = (\<lambda>p ms. if p = 1 \<or> p = 2 then Some (0, NormalExit) else None),
      open_ok = True, readLine = [CHR ''7'', CHR 0x0A], addCookie = (\<lambda>d. True),
      DisplayCommand = ''/usr/share/sddm/scripts/Xsetup'',
      DisplayStopCommand = ''/usr/share/sddm/scripts/Xstop''\<rparr>"

definition example_helper :: XOrgUserHelper where
  "example_helper =
     XOrgUserHelper_new 5 ''/usr/bin/X'' ''/usr/bin/session'' ''/run/user/1000/xauth_ab''"

definition example_server :: QProcess where
  "example_server =
     \<lparr>pid = 0,
      pcmd = ''/usr/bin/X -auth /run/user/1000/xauth_ab -displayfd 4 vt2 -logfile /dev/null'',
      penv = [(''XDG_VTNR'', ''2''), (''XORG_RUN_AS_USER_OK'', ''1'')],
      observers = [QuitOnFault]\<rparr>"

definition example_client :: QProcess where
  "example_client =
     \<lparr>pid = 3, pcmd = ''/usr/bin/session'',
      penv = [(''XDG_VTNR'', ''2''), (''DISPLAY'', '':7''),
              (''XAUTHORITY'', ''/run/user/1000/xauth_ab'')],
      observers = [QuitOnFault, ClientFinished]\<rparr>"

definition running_helper :: XOrgUserHelper where
  "running_helper = snd (start example_world example_helper)"

definition started_helper :: XOrgUserHelper where
  "started_helper = snd (startServer example_world (emit XAuthSetup example_helper))"

definition fd0_helper :: XOrgUserHelper where
  "fd0_helper =
     XOrgUserHelper_new 0 ''/usr/bin/X'' ''/usr/bin/session'' ''/run/user/1000/xauth_ab''"

definition lone_terminator_world :: world where
  "lone_terminator_world = example_world\<lparr>readLine := [CHR 0x0A]\<rparr>"

definition no_cookie_world :: world where
  "no_cookie_world = example_world\<lparr>addCookie := (\<lambda>d. False)\<rparr>"

definition unterminated_world :: world where
  "unterminated_world = example_world\<lparr>readLine := ''12''\<rparr>"

definition failing_setup_world :: world where
  "failing_setup_world =
     example_world\<lparr>waitForFinished :=
       (\<lambda>p ms. if p = 1 then Some (0, NormalExit)
                else if p = 2 then Some (1, NormalExit) else None)\<rparr>"

definition crashing_script_world :: world where
  "crashing_script_world =
     example_world\<lparr>waitForFinished := (\<lambda>p ms. if p = 1 then Some (0, CrashExit) else None)\<rparr>"

section \<open>Properties of the model\<close>

subsection \<open>Closed forms of the steps\<close>

lemma started_append [simp]: "started (xs @ ys) = started xs @ started ys"
  by (induction xs rule: started.induct) simp_all

lemma cookies_append [simp]: "cookies (xs @ ys) = cookies xs @ cookies ys"
  by (induction xs rule: cookies.induct) simp_all

lemma writes_append [simp]: "writes (xs @ ys) = writes xs @ writes ys"
  by (induction xs rule: writes.induct) simp_all

lemma terminated_append [simp]: "terminated (xs @ ys) = terminated xs @ terminated ys"
  by (induction xs rule: terminated.induct) simp_all

lemma killed_append [simp]: "killed (xs @ ys) = killed xs @ killed ys"
  by (induction xs rule: killed.induct) simp_all

lemma removed_append [simp]: "removed (xs @ ys) = removed xs @ removed ys"
  by (induction xs rule: removed.induct) simp_all

lemma run_observer_eq:
  "run_observer c st s ob = s\<lparr>trace := trace s @ observer_events c st (m_serverProcess s) ob\<rparr>"
  by (cases ob; cases "m_serverProcess s") (simp_all add: emit_def)

lemma foldl_run_observer_eq:
  "foldl (run_observer c st) s obs
     = s\<lparr>trace := trace s @ concat (map (observer_events c st (m_serverProcess s)) obs)\<rparr>"
  by (induction obs arbitrary: s) (simp_all add: run_observer_eq)

lemma observer_events_silent:
  "started (observer_events c st sp ob) = [] \<and> cookies (observer_events c st sp ob) = []
   \<and> writes (observer_events c st sp ob) = [] \<and> killed (observer_events c st sp ob) = []
   \<and> removed (observer_events c st sp ob) = []"
  by (cases ob; cases sp) simp_all

lemma signal_silent:
  "started (concat (map (observer_events c st sp) obs)) = [] \<and> cookies (concat (map (observer_events c st sp) obs)) = []
   \<and> writes (concat (map (observer_events c st sp) obs)) = [] \<and> killed (concat (map (observer_events c st sp) obs)) = []
   \<and> removed (concat (map (observer_events c st sp) obs)) = []"
  by (induction obs) (simp_all add: observer_events_silent)

lemma wait_events_silent [simp]:
  "started (wait_events w p ms sp) = []" "cookies (wait_events w p ms sp) = []"
  "writes (wait_events w p ms sp) = []" "killed (wait_events w p ms sp) = []"
  "removed (wait_events w p ms sp) = []"
  by (simp_all add: wait_events_def signal_silent split: option.split)

lemma waitForFinished_eq:
  "QProcess_waitForFinished w p ms s
     = (waitForFinished w (pid p) ms \<noteq> None,
        s\<lparr>trace := trace s @ wait_events w p ms (m_serverProcess s)\<rparr>)"
  by (simp add: QProcess_waitForFinished_def wait_events_def finished_def foldl_run_observer_eq
           split: option.split)

lemma startProcess_eq:
  "startProcess w cmd env s
     = (if waitForStarted w (nextPid s)
        then Some \<lparr>pid = nextPid s, pcmd = cmd, penv = env, observers = [QuitOnFault]\<rparr> else None,
        s\<lparr>nextPid := Suc (nextPid s),
          trace := trace s @ [Start \<lparr>pid = nextPid s, pcmd = cmd, penv = env, observers = [QuitOnFault]\<rparr>]\<rparr>)"
  by (simp add: startProcess_def emit_def Let_def)

lemma kill_delete_eq:
  "QProcess_deleteLater p (if \<not> fin then QProcess_kill p s else s)
     = s\<lparr>trace := trace s @ (if fin then [] else [Kill (pid p)]) @ [DeleteLater (pid p)]\<rparr>"
  by (simp add: QProcess_deleteLater_def QProcess_kill_def emit_def)

lemmas steps = startProcess_eq waitForFinished_eq kill_delete_eq QProcess_terminate_def emit_def

subsection \<open>Composing traces\<close>

lemma emitted_emit [simp]: "emitted s (emit e s) = [e]"
  by (simp add: emitted_def emit_def)

lemma emitted_self [simp]: "emitted s s = []"
  by (simp add: emitted_def)

lemma emitted_trace_update [simp]: "emitted s (s'\<lparr>trace := trace s @ es\<rparr>) = es"
  by (simp add: emitted_def)

lemma emitted_trans:
  assumes "trace s1 = trace s @ es" and "trace s2 = trace s1 @ fs"
  shows "emitted s s2 = emitted s s1 @ emitted s1 s2"
  using assms by (simp add: emitted_def)

subsection \<open>Scripts, client and shutdown\<close>

lemma script_events_quiet [simp]:
  "started (script_events w n ms) = []" "cookies (script_events w n ms) = []"
  "writes (script_events w n ms) = []" "removed (script_events w n ms) = []"
  "terminated (script_events w n ms) = []"
  by (simp_all add: script_events_def split: option.split)

lemma script_events_killed:
  "killed (script_events w n ms)
     = (if waitForStarted w n \<and> waitForFinished w n ms = None then [n] else [])"
  by (simp add: script_events_def split: option.split)

lemma halt_events_quiet [simp]:
  "started (halt_events w p ms sp) = []" "cookies (halt_events w p ms sp) = []"
  "writes (halt_events w p ms sp) = []" "removed (halt_events w p ms sp) = []"
  by (simp_all add: halt_events_def)

lemma halt_events_killed:
  "killed (halt_events w p ms sp) = (if waitForFinished w (pid p) ms = None then [pid p] else [])"
  by (simp add: halt_events_def)

lemma script_stanza:
  "(case startProcess w cmd env s of
      (None, s1) \<Rightarrow> s1
    | (Some p, s1) \<Rightarrow>
        (case QProcess_waitForFinished w p ms s1 of
           (fin, s2) \<Rightarrow> QProcess_deleteLater p (if \<not> fin then QProcess_kill p s2 else s2)))
   = s\<lparr>nextPid := Suc (nextPid s),
       trace := trace s @ Start \<lparr>pid = nextPid s, pcmd = cmd, penv = env, observers = [QuitOnFault]\<rparr>
                 # script_events w (nextPid s) ms\<rparr>"
  by (cases "waitForFinished w (nextPid s) ms")
     (auto simp add: steps script_events_def wait_events_def)

lemma startDisplayCommand_eq:
  "startDisplayCommand w s
     = s\<lparr>nextPid := Suc (Suc (nextPid s)),
         trace := trace s
           @ Start \<lparr>pid = nextPid s, pcmd = ''xsetroot -cursor_name left_ptr'',
                    penv = env_insert ''XAUTHORITY'' (m_xauth s)
                             (env_insert ''DISPLAY'' (m_display s) (sysenv w)),
                    observers = [QuitOnFault]\<rparr>
           # script_events w (nextPid s) 1000
           @ Start \<lparr>pid = Suc (nextPid s), pcmd = DisplayCommand w,
                    penv = env_insert ''XAUTHORITY'' (m_xauth s)
                             (env_insert ''DISPLAY'' (m_display s) (sysenv w)),
                    observers = [QuitOnFault]\<rparr>
           # script_events w (Suc (nextPid s)) 30000\<rparr>"
  unfolding startDisplayCommand_def Let_def script_stanza by simp

lemma displayFinished_eq:
  "displayFinished w s
     = s\<lparr>nextPid := Suc (nextPid s),
         trace := trace s
           @ Start \<lparr>pid = nextPid s, pcmd = DisplayStopCommand w,
                    penv = env_insert ''QT_QPA_PLATFORM'' ''xcb''
                             (env_insert ''XAUTHORITY'' (m_xauth s)
                                (env_insert ''DISPLAY'' (m_display s) (sysenv w))),
                    observers = [QuitOnFault]\<rparr>
           # script_events w (nextPid s) 5000 @ [RemoveFile (m_xauth s)]\<rparr>"
  unfolding displayFinished_def Let_def script_stanza by (simp add: emit_def)

lemma startClient_eq:
  "startClient w s
     = (waitForStarted w (nextPid s),
        s\<lparr>m_clientProcess :=
             (if waitForStarted w (nextPid s)
              then Some \<lparr>pid = nextPid s, pcmd = m_clientCmd s,
                          penv = env_insert ''XAUTHORITY'' (m_xauth s)
                                   (env_insert ''DISPLAY'' (m_display s) (sysenv w)),
                          observers = [QuitOnFault, ClientFinished]\<rparr>
              else m_clientProcess s),
          nextPid := Suc (nextPid s),
          trace := trace s
            @ [Start \<lparr>pid = nextPid s, pcmd = m_clientCmd s,
                      penv = env_insert ''XAUTHORITY'' (m_xauth s)
                               (env_insert ''DISPLAY'' (m_display s) (sysenv w)),
                      observers = [QuitOnFault]\<rparr>]\<rparr>)"
  by (simp add: startClient_def startProcess_eq Let_def)

lemma stop_eq:
  "stop w s
     = (case m_serverProcess s of
          None \<Rightarrow>
            (case m_clientProcess s of
               None \<Rightarrow> s
             | Some c \<Rightarrow> s\<lparr>m_clientProcess := None,
                            trace := trace s @ halt_events w c 5000 None\<rparr>)
        | Some sv \<Rightarrow>
            s\<lparr>m_serverProcess := None, m_clientProcess := None,
              nextPid := Suc (nextPid s),
              trace := trace s
                @ (case m_clientProcess s of
                     None \<Rightarrow> []
                   | Some c \<Rightarrow> halt_events w c 5000 (Some sv))
                @ halt_events w sv 5000 (Some sv)
                @ Start \<lparr>pid = nextPid s, pcmd = DisplayStopCommand w,
                         penv = env_insert ''QT_QPA_PLATFORM'' ''xcb''
                                  (env_insert ''XAUTHORITY'' (m_xauth s)
                                     (env_insert ''DISPLAY'' (m_display s) (sysenv w))),
                         observers = [QuitOnFault]\<rparr>
                # script_events w (nextPid s) 5000 @ [RemoveFile (m_xauth s)]\<rparr>)"
  by (cases "m_clientProcess s"; cases "m_serverProcess s")
     (simp_all add: stop_def Let_def steps halt_events_def displayFinished_eq)

subsection \<open>The server start, path by path\<close>

lemma env_value_insert_other: "k \<noteq> k' \<Longrightarrow> env_value (env_insert k v e) k' = env_value e k'"
  by (simp add: env_value_def env_insert_def update_conv')

lemma server_command_eq:
  "m_serverCmd s @ '' '' @ QStringList_join '' ''
     ([''-auth'', m_xauth s, ''-displayfd'', QString_number fd]
      @ [''vt'' @ env_value (env_insert ''XORG_RUN_AS_USER_OK'' ''1'' (sysenv w)) ''XDG_VTNR'']
      @ [''-logfile'', ''/dev/null''])
   = server_command w s fd"
  by (simp add: server_command_def env_value_insert_other)

lemma display_bytes:
  "\<not> length b < 2 \<Longrightarrow>
   QByteArray_remove (length (QByteArray_prepend '':'' b) - Suc 0) (Suc 0)
       (QByteArray_prepend '':'' b)
     = CHR '':'' # butlast b"
  by (cases b rule: rev_cases) (simp_all add: QByteArray_remove_def QByteArray_prepend_def)

lemma startServer_no_pipe: "pipe_res w = None \<Longrightarrow> startServer w s = (False, s)"
  by (simp add: startServer_def)

lemma startServer_no_start:
  assumes "pipe_res w = Some (r, wr)" and "\<not> waitForStarted w (nextPid s)"
  shows "startServer w s
           = (False, s\<lparr>m_serverCmd := server_command w s wr, nextPid := Suc (nextPid s),
                       trace := trace s @ [Start (server_process w s wr), Close r]\<rparr>)"
  unfolding startServer_def Let_def server_command_eq
  using assms by (simp add: startProcess_eq emit_def server_process_def)

lemma startServer_no_read:
  assumes "pipe_res w = Some (r, wr)" and "waitForStarted w (nextPid s)"
    and "\<not> open_ok w \<or> length (readLine w) < 2"
  shows "startServer w s
           = (False, s\<lparr>m_serverCmd := server_command w s wr,
                       m_serverProcess := Some (server_process w s wr),
                       nextPid := Suc (nextPid s),
                       trace := trace s @ [Start (server_process w s wr), Close wr, Close r]\<rparr>)"
  unfolding startServer_def Let_def server_command_eq
  using assms by (auto simp add: startProcess_eq emit_def server_process_def)

lemma startServer_no_cookie:
  assumes "pipe_res w = Some (r, wr)" and "waitForStarted w (nextPid s)"
    and "open_ok w" and "\<not> length (readLine w) < 2"
    and "\<not> addCookie w (CHR '':'' # butlast (readLine w))"
  shows "startServer w s
           = (False, s\<lparr>m_serverCmd := server_command w s wr,
                       m_display := CHR '':'' # butlast (readLine w),
                       m_serverProcess := Some (server_process w s wr),
                       nextPid := Suc (nextPid s),
                       trace := trace s @ [Start (server_process w s wr), Close wr,
                                           AddCookie (CHR '':'' # butlast (readLine w))]\<rparr>)"
  unfolding startServer_def Let_def server_command_eq
  using assms by (simp add: startProcess_eq emit_def server_process_def display_bytes)

lemma startServer_success:
  assumes "pipe_res w = Some (r, wr)" and "waitForStarted w (nextPid s)"
    and "open_ok w" and "\<not> length (readLine w) < 2"
    and "addCookie w (CHR '':'' # butlast (readLine w))"
  shows "startServer w s
           = (True, s\<lparr>m_serverCmd := server_command w s wr,
                      m_display := CHR '':'' # butlast (readLine w),
                      m_serverProcess := Some (server_process w s wr),
                      nextPid := Suc (nextPid s),
                      trace := trace s @ [Start (server_process w s wr), Close wr,
                                          AddCookie (CHR '':'' # butlast (readLine w))]
                                 @ (if 0 < m_fd s
                                    then [Write (m_fd s) (CHR '':'' # butlast (readLine w))] else [])
                                 @ [Close r]\<rparr>)"
  unfolding startServer_def Let_def server_command_eq
  using assms by (simp add: startProcess_eq emit_def server_process_def display_bytes)

lemma startServer_cases [case_names no_pipe no_start no_read no_cookie success]:
  obtains
    (no_pipe) "pipe_res w = None"
  | (no_start) r wr where "pipe_res w = Some (r, wr)" "\<not> waitForStarted w n"
  | (no_read) r wr where "pipe_res w = Some (r, wr)" "waitForStarted w n"
      "\<not> open_ok w \<or> length (readLine w) < 2"
  | (no_cookie) r wr where "pipe_res w = Some (r, wr)" "waitForStarted w n"
      "open_ok w" "\<not> length (readLine w) < 2"
      "\<not> addCookie w (CHR '':'' # butlast (readLine w))"
  | (success) r wr where "pipe_res w = Some (r, wr)" "waitForStarted w n"
      "open_ok w" "\<not> length (readLine w) < 2"
      "addCookie w (CHR '':'' # butlast (readLine w))"
  by (cases "pipe_res w") (auto, blast)

lemmas startServer_paths =
  startServer_no_pipe startServer_no_start startServer_no_read startServer_no_cookie
  startServer_success

lemma startServer_trace:
  "trace (snd (startServer w s)) = trace s @ emitted s (snd (startServer w s))"
  by (cases rule: startServer_cases [where w = w and n = "nextPid s"]) (simp_all add: startServer_paths)

lemma startServer_ok:
  "fst (startServer w s) \<longleftrightarrow>
     pipe_res w \<noteq> None \<and> waitForStarted w (nextPid s) \<and> open_ok w \<and> 2 \<le> length (readLine w)
     \<and> addCookie w (CHR '':'' # butlast (readLine w))"
  by (cases rule: startServer_cases [where w = w and n = "nextPid s"]) (auto simp add: startServer_paths)

lemma startServer_writes:
  "writes (emitted s (snd (startServer w s)))
     = (if fst (startServer w s) \<and> 0 < m_fd s
        then [(m_fd s, CHR '':'' # butlast (readLine w))] else [])"
  by (cases rule: startServer_cases [where w = w and n = "nextPid s"]) (simp_all add: startServer_paths)

lemma startServer_cookies:
  "cookies (emitted s (snd (startServer w s)))
     = (if pipe_res w \<noteq> None \<and> waitForStarted w (nextPid s) \<and> open_ok w
           \<and> 2 \<le> length (readLine w)
        then [CHR '':'' # butlast (readLine w)] else [])"
  by (cases rule: startServer_cases [where w = w and n = "nextPid s"]) (auto simp add: startServer_paths)

lemma startServer_started:
  "started (emitted s (snd (startServer w s)))
     = (case pipe_res w of None \<Rightarrow> [] | Some (r, wr) \<Rightarrow> [server_process w s wr])"
  by (cases rule: startServer_cases [where w = w and n = "nextPid s"]) (simp_all add: startServer_paths)

lemma startServer_display:
  "m_display (snd (startServer w s))
     = (if pipe_res w \<noteq> None \<and> waitForStarted w (nextPid s) \<and> open_ok w
           \<and> 2 \<le> length (readLine w)
        then CHR '':'' # butlast (readLine w) else m_display s)"
  by (cases rule: startServer_cases [where w = w and n = "nextPid s"]) (auto simp add: startServer_paths)

lemma startServer_serverProcess:
  "m_serverProcess (snd (startServer w s))
     = (case pipe_res w of
          None \<Rightarrow> m_serverProcess s
        | Some (r, wr) \<Rightarrow>
            if waitForStarted w (nextPid s) then Some (server_process w s wr)
            else m_serverProcess s)"
  by (cases rule: startServer_cases [where w = w and n = "nextPid s"]) (simp_all add: startServer_paths)

lemma startServer_quiet:
  "terminated (emitted s (snd (startServer w s))) = []"
  "killed (emitted s (snd (startServer w s))) = []"
  "removed (emitted s (snd (startServer w s))) = []"
  by (cases rule: startServer_cases [where w = w and n = "nextPid s"]; simp add: startServer_paths)+

lemma startServer_frame:
  "m_fd (snd (startServer w s)) = m_fd s"
  "m_xauth (snd (startServer w s)) = m_xauth s"
  "m_clientCmd (snd (startServer w s)) = m_clientCmd s"
  "m_clientProcess (snd (startServer w s)) = m_clientProcess s"
  by (cases rule: startServer_cases [where w = w and n = "nextPid s"]; simp add: startServer_paths)+

lemma startServer_nextPid:
  "nextPid (snd (startServer w s)) = (if pipe_res w = None then nextPid s else Suc (nextPid s))"
  by (cases rule: startServer_cases [where w = w and n = "nextPid s"]) (simp_all add: startServer_paths)

lemma startServer_serverCmd:
  "m_serverCmd (snd (startServer w s))
     = (case pipe_res w of None \<Rightarrow> m_serverCmd s | Some (r, wr) \<Rightarrow> server_command w s wr)"
  by (cases rule: startServer_cases [where w = w and n = "nextPid s"]) (simp_all add: startServer_paths)

subsection \<open>The whole start\<close>

lemma start_unfold:
  "start w s
     = (if fst (startServer w (emit XAuthSetup s))
        then startClient w (startDisplayCommand w (snd (startServer w (emit XAuthSetup s))))
        else (False, snd (startServer w (emit XAuthSetup s))))"
  by (simp add: start_def Let_def split: prod.split bool.split)

lemma emitted_eqI: "trace s' = trace s @ es \<Longrightarrow> emitted s s' = es"
  by (simp add: emitted_def)

lemma startDisplayCommand_trace:
  "trace (startDisplayCommand w s) = trace s @ emitted s (startDisplayCommand w s)"
  by (simp add: startDisplayCommand_eq)

lemma startClient_trace:
  "trace (snd (startClient w s)) = trace s @ emitted s (snd (startClient w s))"
  by (simp add: startClient_eq)

lemma start_emitted:
  "emitted s (snd (start w s))
     = XAuthSetup # emitted (emit XAuthSetup s) (snd (startServer w (emit XAuthSetup s)))
       @ (if fst (startServer w (emit XAuthSetup s))
          then emitted (snd (startServer w (emit XAuthSetup s)))
                 (startDisplayCommand w (snd (startServer w (emit XAuthSetup s))))
               @ emitted (startDisplayCommand w (snd (startServer w (emit XAuthSetup s))))
                   (snd (startClient w
                          (startDisplayCommand w (snd (startServer w (emit XAuthSetup s))))))
          else [])"
proof -
  define s1 where "s1 = emit XAuthSetup s"
  define s2 where "s2 = snd (startServer w s1)"
  define s3 where "s3 = startDisplayCommand w s2"
  define s4 where "s4 = snd (startClient w s3)"
  have t1: "trace s1 = trace s @ [XAuthSetup]"
    by (simp add: s1_def emit_def)
  have t2: "trace s2 = trace s1 @ emitted s1 s2"
    unfolding s2_def by (rule startServer_trace)
  have t3: "trace s3 = trace s2 @ emitted s2 s3"
    unfolding s3_def by (rule startDisplayCommand_trace)
  have t4: "trace s4 = trace s3 @ emitted s3 s4"
    unfolding s4_def by (rule startClient_trace)
  have e1: "emitted s s1 = [XAuthSetup]"
    by (simp add: s1_def)
  have e2: "emitted s s2 = XAuthSetup # emitted s1 s2"
    using emitted_trans [OF t1 t2] e1 by simp
  have "trace s3 = trace s @ (XAuthSetup # emitted s1 s2 @ emitted s2 s3)"
    using t1 t2 t3 by simp
  then have e3: "emitted s s3 = XAuthSetup # emitted s1 s2 @ emitted s2 s3"
    by (rule emitted_eqI)
  have "trace s4 = trace s @ (XAuthSetup # emitted s1 s2 @ emitted s2 s3 @ emitted s3 s4)"
    using t1 t2 t3 t4 by simp
  then have e4: "emitted s s4 = XAuthSetup # emitted s1 s2 @ emitted s2 s3 @ emitted s3 s4"
    by (rule emitted_eqI)
  have "snd (start w s) = (if fst (startServer w s1) then s4 else s2)"
    by (simp add: start_unfold s1_def s2_def s3_def s4_def)
  then show ?thesis
    using e2 e4 by (simp add: s1_def s2_def s3_def s4_def)
qed

lemma startDisplayCommand_quiet:
  "cookies (emitted s (startDisplayCommand w s)) = []"
  "writes (emitted s (startDisplayCommand w s)) = []"
  "removed (emitted s (startDisplayCommand w s)) = []"
  "terminated (emitted s (startDisplayCommand w s)) = []"
  by (simp_all add: startDisplayCommand_eq)

lemma startClient_quiet:
  "cookies (emitted s (snd (startClient w s))) = []"
  "writes (emitted s (snd (startClient w s))) = []"
  "removed (emitted s (snd (startClient w s))) = []"
  "terminated (emitted s (snd (startClient w s))) = []"
  "killed (emitted s (snd (startClient w s))) = []"
  by (simp_all add: startClient_eq)

lemma emit_fields [simp]:
  "m_fd (emit e s) = m_fd s" "m_display (emit e s) = m_display s"
  "m_xauth (emit e s) = m_xauth s" "m_serverCmd (emit e s) = m_serverCmd s"
  "m_clientCmd (emit e s) = m_clientCmd s" "m_serverProcess (emit e s) = m_serverProcess s"
  "m_clientProcess (emit e s) = m_clientProcess s" "nextPid (emit e s) = nextPid s"
  by (simp_all add: emit_def)

lemma start_writes:
  "writes (emitted s (snd (start w s)))
     = (if pipe_res w \<noteq> None \<and> waitForStarted w (nextPid s) \<and> open_ok w
           \<and> 2 \<le> length (readLine w) \<and> addCookie w (CHR '':'' # butlast (readLine w))
           \<and> 0 < m_fd s
        then [(m_fd s, CHR '':'' # butlast (readLine w))] else [])"
  by (simp add: start_emitted startServer_writes startServer_ok startDisplayCommand_quiet
        startClient_quiet)

lemma start_cookies:
  "cookies (emitted s (snd (start w s)))
     = (if pipe_res w \<noteq> None \<and> waitForStarted w (nextPid s) \<and> open_ok w
           \<and> 2 \<le> length (readLine w)
        then [CHR '':'' # butlast (readLine w)] else [])"
  by (simp add: start_emitted startServer_cookies startDisplayCommand_quiet startClient_quiet)

lemma start_ok_imp: "fst (start w s) \<Longrightarrow> fst (startServer w (emit XAuthSetup s))"
  by (simp add: start_unfold split: if_splits)

lemma start_success:
  assumes "pipe_res w = Some (r, wr)" and "waitForStarted w (nextPid s)"
    and "open_ok w" and "\<not> length (readLine w) < 2"
    and "addCookie w (CHR '':'' # butlast (readLine w))"
  shows "start w s
    = (waitForStarted w (Suc (Suc (Suc (nextPid s)))),
       s\<lparr>m_serverCmd := server_command w s wr,
         m_display := CHR '':'' # butlast (readLine w),
         m_serverProcess := Some (server_process w s wr),
         m_clientProcess :=
           (if waitForStarted w (Suc (Suc (Suc (nextPid s))))
            then Some \<lparr>pid = Suc (Suc (Suc (nextPid s))), pcmd = m_clientCmd s,
                        penv = client_env w s (CHR '':'' # butlast (readLine w)),
                        observers = [QuitOnFault, ClientFinished]\<rparr>
            else m_clientProcess s),
         nextPid := Suc (Suc (Suc (Suc (nextPid s)))),
         trace := trace s
           @ [XAuthSetup, Start (server_process w s wr), Close wr,
              AddCookie (CHR '':'' # butlast (readLine w))]
           @ (if 0 < m_fd s then [Write (m_fd s) (CHR '':'' # butlast (readLine w))] else [])
           @ [Close r]
           @ Start \<lparr>pid = Suc (nextPid s), pcmd = ''xsetroot -cursor_name left_ptr'',
                    penv = client_env w s (CHR '':'' # butlast (readLine w)),
                    observers = [QuitOnFault]\<rparr>
           # script_events w (Suc (nextPid s)) 1000
           @ Start \<lparr>pid = Suc (Suc (nextPid s)), pcmd = DisplayCommand w,
                    penv = client_env w s (CHR '':'' # butlast (readLine w)),
                    observers = [QuitOnFault]\<rparr>
           # script_events w (Suc (Suc (nextPid s))) 30000
           @ [Start \<lparr>pid = Suc (Suc (Suc (nextPid s))), pcmd = m_clientCmd s,
                     penv = client_env w s (CHR '':'' # butlast (readLine w)),
                     observers = [QuitOnFault]\<rparr>]\<rparr>)"
proof -
  have srv: "startServer w (emit XAuthSetup s)
      = (True, s\<lparr>m_serverCmd := server_command w s wr,
                  m_display := CHR '':'' # butlast (readLine w),
                  m_serverProcess := Some (server_process w s wr),
                  nextPid := Suc (nextPid s),
                  trace := trace s @ [XAuthSetup, Start (server_process w s wr), Close wr,
                                      AddCookie (CHR '':'' # butlast (readLine w))]
                             @ (if 0 < m_fd s
                                then [Write (m_fd s) (CHR '':'' # butlast (readLine w))] else [])
                             @ [Close r]\<rparr>)"
    using assms
    by (simp add: startServer_success [where r = r and wr = wr] server_process_def
          server_command_def emit_def)
  show ?thesis
    unfolding start_unfold srv
    by (simp add: startDisplayCommand_eq startClient_eq client_env_def)
qed

lemma start_failure:
  "\<not> fst (startServer w (emit XAuthSetup s)) \<Longrightarrow>
   start w s = (False, snd (startServer w (emit XAuthSetup s)))"
  by (simp add: start_unfold)

subsection \<open>The example session\<close>

lemma QString_number_4: "QString_number 4 = ''4''"
  by (simp add: QString_number_def digits.simps [of 4])

lemma example_start_ok:
  "pipe_res example_world = Some (3, 4)" "waitForStarted example_world n"
  "open_ok example_world" "\<not> length (readLine example_world) < 2"
  "addCookie example_world d"
  by (simp_all add: example_world_def)

lemma example_server_process:
  "server_process example_world example_helper 4 = example_server"
  by (simp add: server_process_def server_command_def example_world_def example_helper_def
        XOrgUserHelper_new_def example_server_def QString_number_4 env_value_def env_insert_def)

lemma running_helper_fields:
  "m_serverProcess running_helper = Some example_server"
  "m_clientProcess running_helper = Some example_client"
  "nextPid running_helper = 4"
  "m_xauth running_helper = ''/run/user/1000/xauth_ab''"
  unfolding running_helper_def
    start_success [OF example_start_ok(1) example_start_ok(2) example_start_ok(3)
                      example_start_ok(4) example_start_ok(5)]
  by (simp_all add: example_server_process)
     (simp_all add: example_helper_def XOrgUserHelper_new_def example_world_def
        example_client_def client_env_def env_insert_def)

subsection \<open>Shutdown\<close>

lemma stop_handles: "m_clientProcess (stop w s) = None \<and> m_serverProcess (stop w s) = None"
  by (simp add: stop_eq split: option.split)

lemma stop_noop: "m_clientProcess s = None \<Longrightarrow> m_serverProcess s = None \<Longrightarrow> stop w s = s"
  by (simp add: stop_eq)

lemma stop_started:
  "started (emitted s (stop w s))
     = (case m_serverProcess s of
          None \<Rightarrow> []
        | Some sv \<Rightarrow>
            [\<lparr>pid = nextPid s, pcmd = DisplayStopCommand w,
              penv = env_insert ''QT_QPA_PLATFORM'' ''xcb''
                       (env_insert ''XAUTHORITY'' (m_xauth s)
                          (env_insert ''DISPLAY'' (m_display s) (sysenv w))),
              observers = [QuitOnFault]\<rparr>])"
  by (simp add: stop_eq split: option.split)

lemma stop_removed:
  "removed (emitted s (stop w s))
     = (case m_serverProcess s of None \<Rightarrow> [] | Some sv \<Rightarrow> [m_xauth s])"
  by (simp add: stop_eq split: option.split)

lemma stop_killed:
  "killed (emitted s (stop w s))
     = (case m_clientProcess s of
          None \<Rightarrow> []
        | Some c \<Rightarrow> if waitForFinished w (pid c) 5000 = None then [pid c] else [])
       @ (case m_serverProcess s of
            None \<Rightarrow> []
          | Some sv \<Rightarrow>
              (if waitForFinished w (pid sv) 5000 = None then [pid sv] else [])
              @ (if waitForStarted w (nextPid s) \<and> waitForFinished w (nextPid s) 5000 = None
                 then [nextPid s] else []))"
  by (simp add: stop_eq halt_events_killed script_events_killed split: option.split)

lemma trace_emit [simp]: "trace (emit e s) = trace s @ [e]"
  by (simp add: emit_def)

lemma server_process_emit [simp]:
  "server_process w (emit e s) fd = server_process w s fd"
  "server_command w (emit e s) fd = server_command w s fd"
  by (simp_all add: server_process_def server_command_def)

lemma start_display:
  "m_display (snd (start w s)) = m_display (snd (startServer w (emit XAuthSetup s)))"
  by (simp add: start_unfold startClient_eq startDisplayCommand_eq)

lemma start_started_server:
  "take (Suc 0) (started (emitted s (snd (start w s))))
     = started (emitted (emit XAuthSetup s) (snd (startServer w (emit XAuthSetup s))))"
  by (simp add: start_emitted startServer_started startServer_ok split: option.split)

lemma start_fields_on_failure:
  assumes "\<not> fst (startServer w (emit XAuthSetup s))"
  shows "fst (start w s) = False"
    and "m_clientProcess (snd (start w s)) = m_clientProcess s"
    and "m_serverProcess (snd (start w s)) = m_serverProcess (snd (startServer w (emit XAuthSetup s)))"
    and "m_serverCmd (snd (start w s)) = m_serverCmd (snd (startServer w (emit XAuthSetup s)))"
  using assms by (simp_all add: start_failure startServer_frame)

lemma start_emitted_on_failure:
  assumes "\<not> fst (startServer w (emit XAuthSetup s))"
  shows "emitted s (snd (start w s))
           = XAuthSetup # emitted (emit XAuthSetup s) (snd (startServer w (emit XAuthSetup s)))"
  using assms by (simp add: start_emitted)

lemma malformed_main:
  assumes "length (readLine w) < 2"
  shows "\<not> fst (start w s)" "cookies (emitted s (snd (start w s))) = []"
    "m_clientProcess (snd (start w s)) = m_clientProcess s"
    "length (started (emitted s (snd (start w s)))) \<le> 1"
    "list_all (\<lambda>p. pcmd p = m_serverCmd (snd (start w s))) (started (emitted s (snd (start w s))))"
proof -
  have no: "\<not> fst (startServer w (emit XAuthSetup s))"
    using assms by (simp add: startServer_ok)
  show "\<not> fst (start w s)" "m_clientProcess (snd (start w s)) = m_clientProcess s"
    using start_fields_on_failure [OF no] by simp_all
  show "cookies (emitted s (snd (start w s))) = []"
    using assms by (simp add: start_emitted_on_failure [OF no] startServer_cookies)
  show "length (started (emitted s (snd (start w s)))) \<le> 1"
    by (simp add: start_emitted_on_failure [OF no] startServer_started split: option.split)
  show "list_all (\<lambda>p. pcmd p = m_serverCmd (snd (start w s))) (started (emitted s (snd (start w s))))"
    by (simp add: start_fields_on_failure [OF no] start_emitted_on_failure [OF no]
          startServer_started startServer_serverCmd
          server_process_def split: option.split)
qed

subsection \<open>The single-file helper\<close>

lemma startServer_H_no_pipe:
  "pipe_res w = None \<Longrightarrow> startServer_HelperStartXorgUser w s = (False, s)"
  by (simp add: startServer_HelperStartXorgUser_def)

lemma startServer_H_no_start:
  assumes "pipe_res w = Some (r, wr)" and "\<not> waitForStarted w (nextPid s)"
  shows "startServer_HelperStartXorgUser w s
           = (False, s\<lparr>m_serverCmd := server_command w s wr, nextPid := Suc (nextPid s),
                       trace := trace s @ [Start (server_process w s wr), Close r]\<rparr>)"
  unfolding startServer_HelperStartXorgUser_def Let_def server_command_eq
  using assms by (simp add: startProcess_eq emit_def server_process_def)

lemma startServer_H_no_read:
  assumes "pipe_res w = Some (r, wr)" and "waitForStarted w (nextPid s)"
    and "\<not> open_ok w \<or> length (readLine w) < 2"
  shows "startServer_HelperStartXorgUser w s
           = (False, s\<lparr>m_serverCmd := server_command w s wr,
                       m_serverProcess := Some (server_process w s wr),
                       nextPid := Suc (nextPid s),
                       trace := trace s @ [Start (server_process w s wr), Close wr, Close r]\<rparr>)"
  unfolding startServer_HelperStartXorgUser_def Let_def server_command_eq
  using assms by (auto simp add: startProcess_eq emit_def server_process_def)

lemma startServer_H_success:
  assumes "pipe_res w = Some (r, wr)" and "waitForStarted w (nextPid s)"
    and "open_ok w" and "\<not> length (readLine w) < 2"
  shows "startServer_HelperStartXorgUser w s
           = (True, s\<lparr>m_serverCmd := server_command w s wr,
                      m_display := CHR '':'' # butlast (readLine w),
                      m_serverProcess := Some (server_process w s wr),
                      nextPid := Suc (nextPid s),
                      trace := trace s @ [Start (server_process w s wr), Close wr]
                                 @ (if 0 < m_fd s
                                    then [Write (m_fd s) (CHR '':'' # butlast (readLine w))] else [])
                                 @ [Close r]\<rparr>)"
  unfolding startServer_HelperStartXorgUser_def Let_def server_command_eq
  using assms by (simp add: startProcess_eq emit_def server_process_def display_bytes)

lemma startServer_H_cases [case_names no_pipe no_start no_read success]:
  obtains
    (no_pipe) "pipe_res w = None"
  | (no_start) r wr where "pipe_res w = Some (r, wr)" "\<not> waitForStarted w n"
  | (no_read) r wr where "pipe_res w = Some (r, wr)" "waitForStarted w n"
      "\<not> open_ok w \<or> length (readLine w) < 2"
  | (success) r wr where "pipe_res w = Some (r, wr)" "waitForStarted w n"
      "open_ok w" "\<not> length (readLine w) < 2"
  by (cases "pipe_res w") (auto, blast)

lemmas startServer_H_paths =
  startServer_H_no_pipe startServer_H_no_start startServer_H_no_read startServer_H_success

lemma startServer_H_trace:
  "trace (snd (startServer_HelperStartXorgUser w s))
     = trace s @ emitted s (snd (startServer_HelperStartXorgUser w s))"
  by (cases rule: startServer_H_cases [where w = w and n = "nextPid s"])
     (simp_all add: startServer_H_paths)

lemma startServer_H_ok:
  "fst (startServer_HelperStartXorgUser w s) \<longleftrightarrow>
     pipe_res w \<noteq> None \<and> waitForStarted w (nextPid s) \<and> open_ok w \<and> 2 \<le> length (readLine w)"
  by (cases rule: startServer_H_cases [where w = w and n = "nextPid s"])
     (auto simp add: startServer_H_paths)

lemma startServer_H_writes:
  "writes (emitted s (snd (startServer_HelperStartXorgUser w s)))
     = (if fst (startServer_HelperStartXorgUser w s) \<and> 0 < m_fd s
        then [(m_fd s, CHR '':'' # butlast (readLine w))] else [])"
  by (cases rule: startServer_H_cases [where w = w and n = "nextPid s"])
     (simp_all add: startServer_H_paths)

lemma startServer_H_cookies:
  "cookies (emitted s (snd (startServer_HelperStartXorgUser w s))) = []"
  by (cases rule: startServer_H_cases [where w = w and n = "nextPid s"])
     (simp_all add: startServer_H_paths)

lemma startServer_H_started:
  "started (emitted s (snd (startServer_HelperStartXorgUser w s)))
     = (case pipe_res w of None \<Rightarrow> [] | Some (r, wr) \<Rightarrow> [server_process w s wr])"
  by (cases rule: startServer_H_cases [where w = w and n = "nextPid s"])
     (simp_all add: startServer_H_paths)

lemma startServer_H_frame:
  "m_fd (snd (startServer_HelperStartXorgUser w s)) = m_fd s"
  "m_clientProcess (snd (startServer_HelperStartXorgUser w s)) = m_clientProcess s"
  by (cases rule: startServer_H_cases [where w = w and n = "nextPid s"];
      simp add: startServer_H_paths)+

lemma startServer_H_serverCmd:
  "m_serverCmd (snd (startServer_HelperStartXorgUser w s))
     = (case pipe_res w of None \<Rightarrow> m_serverCmd s | Some (r, wr) \<Rightarrow> server_command w s wr)"
  by (cases rule: startServer_H_cases [where w = w and n = "nextPid s"])
     (simp_all add: startServer_H_paths)

lemma startClient_H_eq:
  "startClient_HelperStartXorgUser w s
     = (waitForStarted w (nextPid s),
        s\<lparr>m_clientProcess :=
             (if waitForStarted w (nextPid s)
              then Some \<lparr>pid = nextPid s, pcmd = m_clientCmd s,
                          penv = env_insert ''XAUTHORITY'' (m_xauth s)
                                   (env_insert ''DISPLAY'' (m_display s) (sysenv w)),
                          observers = [QuitOnFault]\<rparr>
              else m_clientProcess s),
          nextPid := Suc (nextPid s),
          trace := trace s
            @ [Start \<lparr>pid = nextPid s, pcmd = m_clientCmd s,
                      penv = env_insert ''XAUTHORITY'' (m_xauth s)
                               (env_insert ''DISPLAY'' (m_display s) (sysenv w)),
                      observers = [QuitOnFault]\<rparr>]\<rparr>)"
  by (simp add: startClient_HelperStartXorgUser_def startProcess_eq Let_def)

lemma start_H_unfold:
  "start_HelperStartXorgUser w s
     = (if \<not> addCookie w (m_display s)
        then (False, emit (AddCookie (m_display s)) (emit XAuthSetup s))
        else if fst (startServer_HelperStartXorgUser w
                       (emit (AddCookie (m_display s)) (emit XAuthSetup s)))
        then startClient_HelperStartXorgUser w
               (startDisplayCommand w
                  (snd (startServer_HelperStartXorgUser w
                          (emit (AddCookie (m_display s)) (emit XAuthSetup s)))))
        else (False, snd (startServer_HelperStartXorgUser w
                            (emit (AddCookie (m_display s)) (emit XAuthSetup s)))))"
  by (simp add: start_HelperStartXorgUser_def Let_def split: prod.split bool.split)

lemma start_H_emitted:
  "emitted s (snd (start_HelperStartXorgUser w s))
     = [XAuthSetup, AddCookie (m_display s)]
       @ (if \<not> addCookie w (m_display s) then []
          else emitted (emit (AddCookie (m_display s)) (emit XAuthSetup s))
                 (snd (startServer_HelperStartXorgUser w
                         (emit (AddCookie (m_display s)) (emit XAuthSetup s))))
            @ (if fst (startServer_HelperStartXorgUser w
                         (emit (AddCookie (m_display s)) (emit XAuthSetup s)))
               then emitted (snd (startServer_HelperStartXorgUser w
                                    (emit (AddCookie (m_display s)) (emit XAuthSetup s))))
                      (startDisplayCommand w
                         (snd (startServer_HelperStartXorgUser w
                                 (emit (AddCookie (m_display s)) (emit XAuthSetup s)))))
                    @ emitted (startDisplayCommand w
                                 (snd (startServer_HelperStartXorgUser w
                                         (emit (AddCookie (m_display s)) (emit XAuthSetup s)))))
                        (snd (startClient_HelperStartXorgUser w
                               (startDisplayCommand w
                                  (snd (startServer_HelperStartXorgUser w
                                          (emit (AddCookie (m_display s)) (emit XAuthSetup s)))))))
               else []))"
proof -
  define s1 where "s1 = emit (AddCookie (m_display s)) (emit XAuthSetup s)"
  define s2 where "s2 = snd (startServer_HelperStartXorgUser w s1)"
  define s3 where "s3 = startDisplayCommand w s2"
  define s4 where "s4 = snd (startClient_HelperStartXorgUser w s3)"
  have t1: "trace s1 = trace s @ [XAuthSetup, AddCookie (m_display s)]"
    by (simp add: s1_def)
  have t2: "trace s2 = trace s1 @ emitted s1 s2"
    unfolding s2_def by (rule startServer_H_trace)
  have t3: "trace s3 = trace s2 @ emitted s2 s3"
    unfolding s3_def by (rule startDisplayCommand_trace)
  have t4: "trace s4 = trace s3 @ emitted s3 s4"
    unfolding s4_def by (simp add: startClient_H_eq)
  have e1: "emitted s s1 = [XAuthSetup, AddCookie (m_display s)]"
    using t1 by (rule emitted_eqI)
  have "trace s2 = trace s @ ([XAuthSetup, AddCookie (m_display s)] @ emitted s1 s2)"
    using t1 t2 by simp
  then have e2: "emitted s s2 = [XAuthSetup, AddCookie (m_display s)] @ emitted s1 s2"
    by (rule emitted_eqI)
  have "trace s4 = trace s @ ([XAuthSetup, AddCookie (m_display s)] @ emitted s1 s2
                              @ emitted s2 s3 @ emitted s3 s4)"
    using t1 t2 t3 t4 by simp
  then have e4: "emitted s s4 = [XAuthSetup, AddCookie (m_display s)] @ emitted s1 s2
                              @ emitted s2 s3 @ emitted s3 s4"
    by (rule emitted_eqI)
  have "snd (start_HelperStartXorgUser w s)
          = (if \<not> addCookie w (m_display s) then s1
             else if fst (startServer_HelperStartXorgUser w s1) then s4 else s2)"
    by (simp add: start_H_unfold s1_def s2_def s3_def s4_def)
  then show ?thesis
    using e1 e2 e4 by (simp add: s1_def s2_def s3_def s4_def)
qed

lemma startClient_H_quiet:
  "cookies (emitted s (snd (startClient_HelperStartXorgUser w s))) = []"
  "writes (emitted s (snd (startClient_HelperStartXorgUser w s))) = []"
  by (simp_all add: startClient_H_eq)

lemma malformed_H:
  assumes "length (readLine w) < 2"
  shows "\<not> fst (start_HelperStartXorgUser w s)"
    "cookies (emitted s (snd (start_HelperStartXorgUser w s))) = [m_display s]"
    "m_clientProcess (snd (start_HelperStartXorgUser w s)) = m_clientProcess s"
    "length (started (emitted s (snd (start_HelperStartXorgUser w s)))) \<le> 1"
    "list_all (\<lambda>p. pcmd p = m_serverCmd (snd (start_HelperStartXorgUser w s)))
       (started (emitted s (snd (start_HelperStartXorgUser w s))))"
proof -
  have no: "\<not> fst (startServer_HelperStartXorgUser w s')" for s'
    using assms by (simp add: startServer_H_ok)
  show "\<not> fst (start_HelperStartXorgUser w s)"
    by (simp add: start_H_unfold no)
  show "m_clientProcess (snd (start_HelperStartXorgUser w s)) = m_clientProcess s"
    by (simp add: start_H_unfold no startServer_H_frame)
  show "cookies (emitted s (snd (start_HelperStartXorgUser w s))) = [m_display s]"
    by (simp add: start_H_emitted no startServer_H_cookies)
  show "length (started (emitted s (snd (start_HelperStartXorgUser w s)))) \<le> 1"
    by (simp add: start_H_emitted no startServer_H_started split: option.split)
  show "list_all (\<lambda>p. pcmd p = m_serverCmd (snd (start_HelperStartXorgUser w s)))
       (started (emitted s (snd (start_HelperStartXorgUser w s))))"
    unfolding start_H_emitted
    by (simp add: start_H_unfold no startServer_H_started
          startServer_H_serverCmd server_process_def split: option.split)
qed

lemma start_H_writes:
  "m_fd s \<le> 0 \<Longrightarrow> writes (emitted s (snd (start_HelperStartXorgUser w s))) = []"
  by (simp add: start_H_emitted startServer_H_writes startDisplayCommand_quiet
        startClient_H_quiet)

subsection \<open>Trimming a handshake line\<close>

lemma digit_not_space: "is_digit c \<Longrightarrow> \<not> is_space c"
  by (auto simp add: is_digit_def is_space_def)

lemma spec_trimmed_line:
  assumes "ds \<noteq> []" and "list_all is_digit ds" and "is_space t"
  shows "spec_trimmed (ds @ [t]) = ds"
proof -
  have "is_digit (last ds)"
    using assms(1,2) by (simp add: list_all_iff)
  then have "\<not> is_space (hd (rev ds))"
    using assms(1) by (simp add: hd_rev digit_not_space)
  then have "dropWhile is_space (rev ds) = rev ds"
    using assms(1) by (cases "rev ds") simp_all
  then show ?thesis
    using assms(3) by (simp add: spec_trimmed_def)
qed

lemma start_display_name:
  assumes "pipe_res w \<noteq> None" and "waitForStarted w (nextPid s)" and "open_ok w"
    and "2 \<le> length (readLine w)"
  shows "m_display (snd (start w s)) = CHR '':'' # butlast (readLine w)
    \<and> (\<forall>ds t. readLine w = ds @ [t] \<longrightarrow> m_display (snd (start w s)) = CHR '':'' # ds)
    \<and> (\<forall>ds t. readLine w = ds @ [t] \<and> list_all is_digit ds \<and> is_space t \<longrightarrow>
          m_display (snd (start w s)) = CHR '':'' # spec_trimmed (readLine w))"
proof -
  have d: "m_display (snd (start w s)) = CHR '':'' # butlast (readLine w)"
    using assms by (simp add: start_display startServer_display)
  have "spec_trimmed (ds @ [t]) = ds"
    if "readLine w = ds @ [t]" "list_all is_digit ds" "is_space t" for ds t
  proof -
    have "ds \<noteq> []" using that(1) assms(4) by auto
    then show ?thesis using that by (simp add: spec_trimmed_line)
  qed
  then show ?thesis
    using d by auto
qed

subsection \<open>Failure after the server start, exit signals\<close>

lemma start_no_cookie:
  assumes "pipe_res w = Some (r, wr)" and "waitForStarted w (nextPid s)"
    and "open_ok w" and "\<not> length (readLine w) < 2"
    and "\<not> addCookie w (CHR '':'' # butlast (readLine w))"
  shows "start w s
           = (False, s\<lparr>m_serverCmd := server_command w s wr,
                       m_display := CHR '':'' # butlast (readLine w),
                       m_serverProcess := Some (server_process w s wr),
                       nextPid := Suc (nextPid s),
                       trace := trace s @ [XAuthSetup, Start (server_process w s wr), Close wr,
                                           AddCookie (CHR '':'' # butlast (readLine w))]\<rparr>)"
proof -
  have srv: "startServer w (emit XAuthSetup s)
      = (False, s\<lparr>m_serverCmd := server_command w s wr,
                   m_display := CHR '':'' # butlast (readLine w),
                   m_serverProcess := Some (server_process w s wr),
                   nextPid := Suc (nextPid s),
                   trace := trace s @ [XAuthSetup, Start (server_process w s wr), Close wr,
                                       AddCookie (CHR '':'' # butlast (readLine w))]\<rparr>)"
    using assms
    by (simp add: startServer_no_cookie [where r = r and wr = wr] emit_def
          server_process_def server_command_def)
  show ?thesis
    unfolding start_unfold srv by simp
qed

lemma stop_terminates_server:
  "m_serverProcess s = Some sv \<Longrightarrow> Terminate (pid sv) \<in> set (emitted s (stop w s))"
  by (simp add: stop_eq halt_events_def)

lemma finished_emitted:
  "emitted s (finished p c st s)
     = concat (map (observer_events c st (m_serverProcess s)) (observers p))"
  by (simp add: finished_def foldl_run_observer_eq)

lemma quit_in_signal:
  assumes "QuitOnFault \<in> set obs" and "c \<noteq> 0 \<or> st \<noteq> NormalExit"
  shows "Quit \<in> set (concat (map (observer_events c st sp) obs))"
  using assms by (induction obs) auto

lemma startDisplayCommand_started:
  "map observers (started (emitted s (startDisplayCommand w s))) = [[QuitOnFault], [QuitOnFault]]"
  "map pcmd (started (emitted s (startDisplayCommand w s)))
     = [''xsetroot -cursor_name left_ptr'', DisplayCommand w]"
  by (simp_all add: startDisplayCommand_eq)

lemma startClient_started:
  "map observers (started (emitted s (snd (startClient w s)))) = [[QuitOnFault]]"
  by (simp add: startClient_eq)

lemma observers_all: "list_all (\<lambda>p. observers p = x) ps \<longleftrightarrow> list_all (\<lambda>obs. obs = x) (map observers ps)"
  by (simp add: list_all_iff)

lemma start_started_observers:
  "list_all (\<lambda>p. observers p = [QuitOnFault]) (started (emitted s (snd (start w s))))"
  unfolding start_emitted observers_all
  by (simp add: startServer_started startDisplayCommand_started startClient_started
        server_process_def split: option.split)

subsection \<open>Well-formed helpers\<close>

lemma wellformed_new: "wellformed (XOrgUserHelper_new fd serverCmd clientCmd authPath)"
  by (simp add: wellformed_def live_def XOrgUserHelper_new_def)

lemma start_wellformed:
  assumes "wellformed s"
  shows "wellformed (snd (start w s))"
proof (cases rule: startServer_cases [where w = w and n = "nextPid s"])
  case no_pipe
  then show ?thesis
    using assms
    by (simp add: start_unfold startServer_no_pipe wellformed_def live_def emit_def)
next
  case (no_start r wr)
  then show ?thesis
    using assms
    by (auto simp add: start_unfold startServer_no_start [where r = r and wr = wr]
          wellformed_def live_def list_all_iff split: option.splits)
next
  case (no_read r wr)
  then have "startServer w (emit XAuthSetup s)
      = (False, (emit XAuthSetup s)\<lparr>m_serverCmd := server_command w s wr,
                       m_serverProcess := Some (server_process w s wr),
                       nextPid := Suc (nextPid s),
                       trace := trace s @ [XAuthSetup, Start (server_process w s wr), Close wr, Close r]\<rparr>)"
    by (simp add: startServer_no_read [where r = r and wr = wr])
  then show ?thesis
    using assms
    by (auto simp add: start_unfold wellformed_def live_def list_all_iff server_process_def
          split: option.splits)
next
  case (no_cookie r wr)
  then show ?thesis
    using assms
    by (auto simp add: start_no_cookie [where r = r and wr = wr] wellformed_def live_def
          list_all_iff server_process_def split: option.splits)
next
  case (success r wr)
  then show ?thesis
    using assms
    by (auto simp add: start_success [where r = r and wr = wr] wellformed_def live_def
          list_all_iff server_process_def split: option.splits)
qed

lemma stop_wellformed: "wellformed (stop w s)"
  by (simp add: wellformed_def live_def stop_handles)

subsection \<open>What a wait and a script run can emit\<close>




section \<open>The claims\<close>

subsection \<open>C1\<close>

text \<open>
  Claim C1 says that the quit-on-fault exit observer is attached to the server and the
  client only, so that a failing cursor command, display-setup script or
  display-teardown script never causes the global shutdown. The source connects the
  observer in \<^verbatim>\<open>startProcess\<close>, which starts every process. What holds instead: every
  process that \<^verbatim>\<open>start\<close> or \<^verbatim>\<open>stop\<close> starts carries the observer, the two processes of
  \<^verbatim>\<open>startDisplayCommand\<close> and the one of \<^verbatim>\<open>displayFinished\<close> included; the exit signal
  of a process that carries it requests quit when the exit code is not 0 or the exit is
  abnormal; and the cursor command, the display-setup script and the display-stop
  script, seen to exit so within the wait that follows their start, make
  \<^verbatim>\<open>startDisplayCommand\<close> and \<^verbatim>\<open>displayFinished\<close> request quit.
\<close>

theorem quit_on_fault_attached_to_every_process:
  "list_all (\<lambda>p. observers p = [QuitOnFault]) (started (emitted s (snd (start w s))))
   \<and> list_all (\<lambda>p. observers p = [QuitOnFault]) (started (emitted s (stop w s)))
   \<and> map observers (started (emitted s (startDisplayCommand w s)))
       = [[QuitOnFault], [QuitOnFault]]
   \<and> map observers (started (emitted s (displayFinished w s))) = [[QuitOnFault]]
   \<and> (QuitOnFault \<in> set (observers p) \<and> (exitCode \<noteq> 0 \<or> exitStatus \<noteq> NormalExit) \<longrightarrow>
        Quit \<in> set (emitted s (finished p exitCode exitStatus s)))
   \<and> (waitForStarted w (nextPid s)
        \<and> waitForFinished w (nextPid s) 1000 = Some (exitCode, exitStatus)
        \<and> (exitCode \<noteq> 0 \<or> exitStatus \<noteq> NormalExit) \<longrightarrow>
        Quit \<in> set (emitted s (startDisplayCommand w s)))
   \<and> (waitForStarted w (Suc (nextPid s))
        \<and> waitForFinished w (Suc (nextPid s)) 30000 = Some (exitCode, exitStatus)
        \<and> (exitCode \<noteq> 0 \<or> exitStatus \<noteq> NormalExit) \<longrightarrow>
        Quit \<in> set (emitted s (startDisplayCommand w s)))
   \<and> (waitForStarted w (nextPid s)
        \<and> waitForFinished w (nextPid s) 5000 = Some (exitCode, exitStatus)
        \<and> (exitCode \<noteq> 0 \<or> exitStatus \<noteq> NormalExit) \<longrightarrow>
        Quit \<in> set (emitted s (displayFinished w s)))"
proof -
  have "Quit \<in> set (emitted s (finished p exitCode exitStatus s))"
    if "QuitOnFault \<in> set (observers p)" "exitCode \<noteq> 0 \<or> exitStatus \<noteq> NormalExit"
    unfolding finished_emitted using that by (rule quit_in_signal)
  moreover have "Quit \<in> set (emitted s (startDisplayCommand w s))"
    if "waitForStarted w (nextPid s)"
      "waitForFinished w (nextPid s) 1000 = Some (exitCode, exitStatus)"
      "exitCode \<noteq> 0 \<or> exitStatus \<noteq> NormalExit"
    using that by (auto simp add: startDisplayCommand_eq script_events_def)
  moreover have "Quit \<in> set (emitted s (startDisplayCommand w s))"
    if "waitForStarted w (Suc (nextPid s))"
      "waitForFinished w (Suc (nextPid s)) 30000 = Some (exitCode, exitStatus)"
      "exitCode \<noteq> 0 \<or> exitStatus \<noteq> NormalExit"
    using that by (auto simp add: startDisplayCommand_eq script_events_def)
  moreover have "Quit \<in> set (emitted s (displayFinished w s))"
    if "waitForStarted w (nextPid s)"
      "waitForFinished w (nextPid s) 5000 = Some (exitCode, exitStatus)"
      "exitCode \<noteq> 0 \<or> exitStatus \<noteq> NormalExit"
    using that by (auto simp add: displayFinished_eq script_events_def)
  moreover have "list_all (\<lambda>p. observers p = [QuitOnFault]) (started (emitted s (stop w s)))"
    by (simp add: stop_started split: option.split)
  moreover have "map observers (started (emitted s (startDisplayCommand w s)))
       = [[QuitOnFault], [QuitOnFault]]"
    by (simp add: startDisplayCommand_eq)
  moreover have "map observers (started (emitted s (displayFinished w s))) = [[QuitOnFault]]"
    by (simp add: displayFinished_eq)
  ultimately show ?thesis
    using start_started_observers [of s w] by blast
qed

theorem quit_on_fault_attached_to_every_process_witness:
  "list_all (\<lambda>p. observers p = [QuitOnFault])
     (started (emitted example_helper (snd (start failing_setup_world example_helper))))
   \<and> QuitOnFault \<in> set (observers example_server)
   \<and> Quit \<in> set (emitted example_helper (finished example_server 1 NormalExit example_helper))
   \<and> waitForStarted failing_setup_world (Suc (nextPid started_helper))
   \<and> waitForFinished failing_setup_world (Suc (nextPid started_helper)) 30000
       = Some (1, NormalExit)
   \<and> Quit \<in> set (emitted started_helper
                    (startDisplayCommand failing_setup_world started_helper))
   \<and> waitForStarted crashing_script_world (nextPid started_helper)
   \<and> waitForFinished crashing_script_world (nextPid started_helper) 1000 = Some (0, CrashExit)
   \<and> Quit \<in> set (emitted started_helper
                    (startDisplayCommand crashing_script_world started_helper))
   \<and> waitForFinished crashing_script_world (nextPid started_helper) 5000 = Some (0, CrashExit)
   \<and> Quit \<in> set (emitted started_helper (displayFinished crashing_script_world started_helper))"
proof -
  have n: "nextPid started_helper = 1"
    by (simp add: started_helper_def startServer_nextPid example_world_def example_helper_def
          XOrgUserHelper_new_def)
  show ?thesis
    using quit_on_fault_attached_to_every_process
            [of example_helper failing_setup_world example_server 1 NormalExit]
      quit_on_fault_attached_to_every_process
            [of started_helper failing_setup_world example_server 1 NormalExit]
      quit_on_fault_attached_to_every_process
            [of started_helper crashing_script_world example_server 0 CrashExit]
    by (simp add: n example_server_def failing_setup_world_def crashing_script_world_def
          example_world_def)
qed

text \<open>
  Against C1 as stated: in a session whose display-setup script exits with code 1, all
  four started processes carry the observer and \<^verbatim>\<open>start\<close> requests quit; with exit
  code 0 for that script, and nothing else changed, it does not.
\<close>

theorem auxiliary_fault_counterexample:
  "map pcmd (started (emitted example_helper (snd (start failing_setup_world example_helper))))
     = [pcmd example_server, ''xsetroot -cursor_name left_ptr'',
        ''/usr/share/sddm/scripts/Xsetup'', ''/usr/bin/session'']
   \<and> map observers
        (started (emitted example_helper (snd (start failing_setup_world example_helper))))
     = [[QuitOnFault], [QuitOnFault], [QuitOnFault], [QuitOnFault]]
   \<and> waitForFinished failing_setup_world 2 30000 = Some (1, NormalExit)
   \<and> Quit \<in> set (emitted example_helper (snd (start failing_setup_world example_helper)))
   \<and> Quit \<notin> set (emitted example_helper (snd (start example_world example_helper)))"
proof -
  have h: "pipe_res failing_setup_world = Some (3, 4)" "waitForStarted failing_setup_world n"
    "open_ok failing_setup_world" "\<not> length (readLine failing_setup_world) < 2"
    "addCookie failing_setup_world d" for n d
    by (simp_all add: failing_setup_world_def example_world_def)
  have sp: "server_process failing_setup_world example_helper 4 = example_server"
    using example_server_process
    by (simp add: server_process_def server_command_def failing_setup_world_def)
  have e1: "script_events failing_setup_world (Suc (nextPid example_helper)) 1000
              = [DeleteLater 1]"
    and e2: "script_events failing_setup_world (Suc (Suc (nextPid example_helper))) 30000
              = [Quit, DeleteLater 2]"
    and e3: "script_events example_world (Suc (nextPid example_helper)) 1000 = [DeleteLater 1]"
    and e4: "script_events example_world (Suc (Suc (nextPid example_helper))) 30000
              = [DeleteLater 2]"
    by (simp_all add: script_events_def failing_setup_world_def example_world_def
          example_helper_def XOrgUserHelper_new_def)
  have hf: "m_clientCmd example_helper = ''/usr/bin/session''" "m_fd example_helper = 5"
    "DisplayCommand failing_setup_world = ''/usr/share/sddm/scripts/Xsetup''"
    by (simp_all add: example_helper_def XOrgUserHelper_new_def failing_setup_world_def
          example_world_def)
  have w: "waitForFinished failing_setup_world 2 30000 = Some (1, NormalExit)"
    by (simp add: failing_setup_world_def)
  show ?thesis
    by (simp add: start_success [OF h(1) h(2) h(3) h(4) h(5)]
          start_success [OF example_start_ok(1) example_start_ok(2) example_start_ok(3)
                      example_start_ok(4) example_start_ok(5)]
          sp example_server_process e1 e2 e3 e4 hf w example_server_def)
qed

subsection \<open>C2\<close>

text \<open>
  Claim C2 says that the bytes written to the report descriptor are the raw handshake
  bytes, digits and line terminator, without a colon. The source writes the byte array
  after the colon has been prepended and the last byte removed. What holds instead:
  \<^verbatim>\<open>start\<close> writes to the report descriptor at most once; it writes exactly when the
  pipe was created, the server started, the read end opened, at least two bytes were
  read, the cookie was added and the descriptor is positive; and the bytes are the colon
  followed by the handshake bytes without their last byte.
\<close>

theorem control_channel_report:
  "writes (emitted s (snd (start w s)))
     = (if pipe_res w \<noteq> None \<and> waitForStarted w (nextPid s) \<and> open_ok w
           \<and> 2 \<le> length (readLine w) \<and> addCookie w (CHR '':'' # butlast (readLine w))
           \<and> 0 < m_fd s
        then [(m_fd s, CHR '':'' # butlast (readLine w))] else [])"
  by (rule start_writes)

theorem control_channel_report_witness:
  "writes (emitted example_helper
      (snd (start (example_world\<lparr>readLine := [CHR ''1'', CHR ''0'', CHR 0x0A]\<rparr>) example_helper)))
     = [(5, '':10'')]
   \<and> writes (emitted fd0_helper (snd (start example_world fd0_helper))) = []
   \<and> writes (emitted example_helper (snd (start lone_terminator_world example_helper))) = []"
  using control_channel_report [of example_helper
          "example_world\<lparr>readLine := [CHR ''1'', CHR ''0'', CHR 0x0A]\<rparr>"]
    control_channel_report [of fd0_helper example_world]
    control_channel_report [of example_helper lone_terminator_world]
  by (simp add: example_world_def example_helper_def fd0_helper_def XOrgUserHelper_new_def
        lone_terminator_world_def)

text \<open>
  Against C2 as stated: for the handshake bytes \<open>7\<close> and newline the helper writes
  \<open>:7\<close> to descriptor 5, which is not the handshake bytes.
\<close>

theorem control_channel_report_counterexample:
  "readLine example_world = [CHR ''7'', CHR 0x0A]
   \<and> writes (emitted example_helper (snd (start example_world example_helper))) = [(5, '':7'')]
   \<and> writes (emitted example_helper (snd (start example_world example_helper)))
       \<noteq> [(5, readLine example_world)]"
  by (simp add: start_writes example_world_def example_helper_def XOrgUserHelper_new_def)

subsection \<open>C3\<close>

text \<open>
  Claim C3: when the handshake read yields fewer than two bytes, \<^verbatim>\<open>start\<close> returns
  false, no cookie is added, and the client is not started: the client handle is
  unchanged, and at most one process was started, under the server's command line.
  The single-file helper behaves the same, except that its one \<^verbatim>\<open>addCookie\<close> call was
  made before the server start, for the display name held then and not for a resolved
  one.
\<close>

theorem malformed_handshake:
  assumes "length (readLine w) < 2"
  shows "\<not> fst (start w s)
    \<and> cookies (emitted s (snd (start w s))) = []
    \<and> m_clientProcess (snd (start w s)) = m_clientProcess s
    \<and> length (started (emitted s (snd (start w s)))) \<le> 1
    \<and> list_all (\<lambda>p. pcmd p = m_serverCmd (snd (start w s)))
         (started (emitted s (snd (start w s))))
    \<and> \<not> fst (start_HelperStartXorgUser w s)
    \<and> cookies (emitted s (snd (start_HelperStartXorgUser w s))) = [m_display s]
    \<and> m_clientProcess (snd (start_HelperStartXorgUser w s)) = m_clientProcess s
    \<and> length (started (emitted s (snd (start_HelperStartXorgUser w s)))) \<le> 1
    \<and> list_all (\<lambda>p. pcmd p = m_serverCmd (snd (start_HelperStartXorgUser w s)))
         (started (emitted s (snd (start_HelperStartXorgUser w s))))"
  using malformed_main [OF assms, of s] malformed_H [OF assms, of s] by simp

theorem malformed_handshake_witness:
  "length (readLine lone_terminator_world) < 2
   \<and> \<not> fst (start lone_terminator_world example_helper)
   \<and> cookies (emitted example_helper (snd (start lone_terminator_world example_helper))) = []
   \<and> m_clientProcess (snd (start lone_terminator_world example_helper)) = None
   \<and> \<not> fst (start_HelperStartXorgUser lone_terminator_world example_helper)
   \<and> cookies (emitted example_helper
        (snd (start_HelperStartXorgUser lone_terminator_world example_helper))) = ['':0'']
   \<and> m_clientProcess (snd (start_HelperStartXorgUser lone_terminator_world example_helper)) = None"
proof -
  have short: "length (readLine lone_terminator_world) < 2"
    by (simp add: lone_terminator_world_def)
  show ?thesis
    using short malformed_handshake [OF short, of example_helper]
    by (simp add: example_helper_def XOrgUserHelper_new_def)
qed

subsection \<open>C4\<close>

text \<open>
  Claim C4 says that when adding the cookie fails after the server has been started,
  the server is terminated before \<^verbatim>\<open>start\<close> returns. The source returns at once. What
  holds instead: \<^verbatim>\<open>start\<close> returns false having started the server only, with no
  \<^verbatim>\<open>terminate\<close> and no \<^verbatim>\<open>kill\<close>; the server stays recorded in \<open>m_serverProcess\<close>, and
  the next \<^verbatim>\<open>stop\<close> terminates it.
\<close>

theorem cookie_failure_leaves_server_to_stop:
  assumes "pipe_res w = Some (r, wr)" and "waitForStarted w (nextPid s)"
    and "open_ok w" and "2 \<le> length (readLine w)"
    and "\<not> addCookie w (CHR '':'' # butlast (readLine w))"
  shows "\<not> fst (start w s)
    \<and> map pid (started (emitted s (snd (start w s)))) = [nextPid s]
    \<and> map_option pid (m_serverProcess (snd (start w s))) = Some (nextPid s)
    \<and> terminated (emitted s (snd (start w s))) = []
    \<and> killed (emitted s (snd (start w s))) = []
    \<and> Terminate (nextPid s) \<in> set (emitted (snd (start w s)) (stop w' (snd (start w s))))"
proof -
  have len: "\<not> length (readLine w) < 2"
    using assms(4) by simp
  note st = start_no_cookie [OF assms(1) assms(2) assms(3) len assms(5)]
  have sv: "m_serverProcess (snd (start w s)) = Some (server_process w s wr)"
    by (simp add: st)
  have "Terminate (pid (server_process w s wr))
          \<in> set (emitted (snd (start w s)) (stop w' (snd (start w s))))"
    using sv by (rule stop_terminates_server)
  then have "Terminate (nextPid s) \<in> set (emitted (snd (start w s)) (stop w' (snd (start w s))))"
    by (simp add: server_process_def)
  moreover have "\<not> fst (start w s)"
    "map pid (started (emitted s (snd (start w s)))) = [nextPid s]"
    "map_option pid (m_serverProcess (snd (start w s))) = Some (nextPid s)"
    "terminated (emitted s (snd (start w s))) = []"
    "killed (emitted s (snd (start w s))) = []"
    by (simp_all add: st server_process_def)
  ultimately show ?thesis by simp
qed

theorem cookie_failure_leaves_server_to_stop_witness:
  "pipe_res no_cookie_world = Some (3, 4) \<and> waitForStarted no_cookie_world (nextPid example_helper)
   \<and> open_ok no_cookie_world \<and> 2 \<le> length (readLine no_cookie_world)
   \<and> \<not> addCookie no_cookie_world (CHR '':'' # butlast (readLine no_cookie_world))
   \<and> \<not> fst (start no_cookie_world example_helper)
   \<and> terminated (emitted example_helper (snd (start no_cookie_world example_helper))) = []
   \<and> Terminate 0 \<in> set (emitted (snd (start no_cookie_world example_helper))
                          (stop example_world (snd (start no_cookie_world example_helper))))"
proof -
  have h: "pipe_res no_cookie_world = Some (3, 4)"
    "waitForStarted no_cookie_world (nextPid example_helper)"
    "open_ok no_cookie_world" "2 \<le> length (readLine no_cookie_world)"
    "\<not> addCookie no_cookie_world (CHR '':'' # butlast (readLine no_cookie_world))"
    by (simp_all add: no_cookie_world_def example_world_def)
  show ?thesis
    using h cookie_failure_leaves_server_to_stop [OF h, of example_world]
    by (simp add: example_helper_def XOrgUserHelper_new_def)
qed

text \<open>
  Against C4 as stated: in a session where \<^verbatim>\<open>addCookie\<close> fails, \<^verbatim>\<open>start\<close> returns false,
  the server has been started and is still held, and nothing was terminated or killed.
\<close>

theorem cookie_failure_counterexample:
  "\<not> fst (start no_cookie_world example_helper)
   \<and> cookies (emitted example_helper (snd (start no_cookie_world example_helper))) = ['':7'']
   \<and> started (emitted example_helper (snd (start no_cookie_world example_helper)))
       = [example_server]
   \<and> m_serverProcess (snd (start no_cookie_world example_helper)) = Some example_server
   \<and> terminated (emitted example_helper (snd (start no_cookie_world example_helper))) = []
   \<and> killed (emitted example_helper (snd (start no_cookie_world example_helper))) = []"
proof -
  have h: "pipe_res no_cookie_world = Some (3, 4)"
    "waitForStarted no_cookie_world (nextPid example_helper)"
    "open_ok no_cookie_world" "\<not> length (readLine no_cookie_world) < 2"
    "\<not> addCookie no_cookie_world (CHR '':'' # butlast (readLine no_cookie_world))"
    by (simp_all add: no_cookie_world_def example_world_def)
  have sp: "server_process no_cookie_world example_helper 4 = example_server"
    using example_server_process
    by (simp add: server_process_def server_command_def no_cookie_world_def)
  have r: "readLine no_cookie_world = [CHR ''7'', CHR 0x0A]"
    by (simp add: no_cookie_world_def example_world_def)
  show ?thesis
    by (simp add: start_no_cookie [OF h] sp r)
qed

subsection \<open>C5\<close>

text \<open>
  Claim C5: the display name is the colon followed by the handshake bytes with trailing
  whitespace stripped. For a line of digits followed by one whitespace byte the source
  agrees (\<open>start_display_name\<close> above). It removes the last byte whatever it is,
  though, where its comment says that trailing whitespace is trimmed: for the handshake
  bytes \<open>12\<close> without a terminator the read succeeds, \<^verbatim>\<open>start\<close> returns true and the
  display name becomes \<open>:1\<close>, while stripping trailing whitespace gives \<open>:12\<close>.
\<close>

theorem unterminated_handshake_line:
  "pipe_res unterminated_world \<noteq> None
   \<and> waitForStarted unterminated_world (nextPid example_helper)
   \<and> open_ok unterminated_world \<and> readLine unterminated_world = ''12''
   \<and> fst (start unterminated_world example_helper)
   \<and> m_display (snd (start unterminated_world example_helper)) = '':1''
   \<and> CHR '':'' # spec_trimmed (readLine unterminated_world) = '':12''"
proof -
  have h: "pipe_res unterminated_world = Some (3, 4)" "waitForStarted unterminated_world n"
    "open_ok unterminated_world" "\<not> length (readLine unterminated_world) < 2"
    "addCookie unterminated_world d" for n d
    by (simp_all add: unterminated_world_def example_world_def)
  have r: "readLine unterminated_world = ''12''"
    by (simp add: unterminated_world_def)
  show ?thesis
    using h r
    by (simp add: start_success [OF h(1) h(2) h(3) h(4) h(5)] spec_trimmed_def is_space_def)
qed

subsection \<open>C6\<close>




subsection \<open>C7\<close>

text \<open>
  Claim C7: a second \<^verbatim>\<open>stop\<close> right after a first one changes nothing, whatever the
  world answers; the two calls together start at most one process, the display-stop
  script, and remove at most one file; and \<^verbatim>\<open>stop\<close> on a helper that holds no process
  changes nothing.
\<close>

theorem stop_idempotent:
  "stop w2 (stop w1 s) = stop w1 s
   \<and> length (started (emitted s (stop w2 (stop w1 s)))) \<le> 1
   \<and> list_all (\<lambda>p. pcmd p = DisplayStopCommand w1) (started (emitted s (stop w2 (stop w1 s))))
   \<and> length (removed (emitted s (stop w2 (stop w1 s)))) \<le> 1
   \<and> (m_clientProcess s = None \<and> m_serverProcess s = None \<longrightarrow> stop w1 s = s)"
proof -
  have again: "stop w2 (stop w1 s) = stop w1 s"
    by (rule stop_noop) (simp_all add: stop_handles)
  show ?thesis
    unfolding again
    by (simp add: stop_started stop_removed stop_noop split: option.split)
qed

theorem stop_idempotent_witness:
  "stop example_world (stop example_world running_helper) = stop example_world running_helper
   \<and> length (started (emitted running_helper
                (stop example_world (stop example_world running_helper)))) = 1
   \<and> length (removed (emitted running_helper
                (stop example_world (stop example_world running_helper)))) = 1
   \<and> m_clientProcess example_helper = None \<and> m_serverProcess example_helper = None
   \<and> stop example_world example_helper = example_helper"
  using stop_idempotent [of example_world example_world running_helper]
    stop_idempotent [of example_world example_world example_helper]
  by (simp add: stop_started stop_removed running_helper_fields example_helper_def
        XOrgUserHelper_new_def)

subsection \<open>C8\<close>

text \<open>
  Claim C8: for the client and for the server of a well-formed helper, \<^verbatim>\<open>stop\<close> calls
  \<^verbatim>\<open>kill\<close> on the process exactly once when the five-second wait after \<^verbatim>\<open>terminate\<close>
  returns false, and never when the process finishes within the wait.
\<close>

theorem stop_forced_kill:
  assumes "wellformed s" and "p \<in> set (live s)"
  shows "count_list (killed (emitted s (stop w s))) (pid p)
           = (if waitForFinished w (pid p) 5000 = None then 1 else 0)"
  using assms
  by (cases "m_clientProcess s"; cases "m_serverProcess s")
     (auto simp add: stop_killed wellformed_def live_def)

theorem stop_forced_kill_witness:
  "wellformed running_helper \<and> example_client \<in> set (live running_helper)
   \<and> example_server \<in> set (live running_helper)
   \<and> waitForFinished example_world (pid example_client) 5000 = None
   \<and> count_list (killed (emitted running_helper (stop example_world running_helper)))
        (pid example_client) = 1
   \<and> waitForFinished (example_world\<lparr>waitForFinished := (\<lambda>p ms. Some (0, NormalExit))\<rparr>)
        (pid example_server) 5000 = Some (0, NormalExit)
   \<and> count_list (killed (emitted running_helper
        (stop (example_world\<lparr>waitForFinished := (\<lambda>p ms. Some (0, NormalExit))\<rparr>) running_helper)))
        (pid example_server) = 0"
proof -
  have wf: "wellformed running_helper"
    by (simp add: wellformed_def live_def running_helper_fields example_client_def
          example_server_def)
  have c: "example_client \<in> set (live running_helper)"
    and sv: "example_server \<in> set (live running_helper)"
    by (simp_all add: live_def running_helper_fields)
  show ?thesis
    using wf c sv stop_forced_kill [OF wf c, of example_world]
      stop_forced_kill [OF wf sv,
        of "example_world\<lparr>waitForFinished := (\<lambda>p ms. Some (0, NormalExit))\<rparr>"]
    by (simp add: example_world_def example_client_def)
qed

subsection \<open>C9\<close>

text \<open>
  Claim C9: with a report descriptor of 0 or less, descriptor 0 included, \<^verbatim>\<open>start\<close>
  writes nothing, in either helper.
\<close>

theorem report_skipped_without_positive_fd:
  assumes "m_fd s \<le> 0"
  shows "writes (emitted s (snd (start w s))) = []
    \<and> writes (emitted s (snd (start_HelperStartXorgUser w s))) = []"
  using assms by (simp add: start_writes start_H_writes)

theorem report_skipped_without_positive_fd_witness:
  "m_fd fd0_helper = 0 \<and> fst (start example_world fd0_helper)
   \<and> writes (emitted fd0_helper (snd (start example_world fd0_helper))) = []
   \<and> writes (emitted fd0_helper (snd (start_HelperStartXorgUser example_world fd0_helper))) = []"
proof -
  have fd: "m_fd fd0_helper \<le> 0"
    by (simp add: fd0_helper_def XOrgUserHelper_new_def)
  have ok: "fst (start example_world fd0_helper)"
    by (simp add: start_success [OF example_start_ok(1) example_start_ok(2) example_start_ok(3)
                      example_start_ok(4) example_start_ok(5)] example_start_ok)
  show ?thesis
    using ok report_skipped_without_positive_fd [OF fd, of example_world]
    by (simp add: fd0_helper_def XOrgUserHelper_new_def)
qed

subsection \<open>C10\<close>

text \<open>
  Claim C10: once the pipe exists, \<^verbatim>\<open>startServer\<close> starts exactly one process; its
  command line is the server command the helper holds followed by
  \<open> -auth <authority path> -displayfd <write end> vt<XDG_VTNR> -logfile /dev/null\<close>,
  hence never the held command itself; its environment is the system environment with
  \<open>XORG_RUN_AS_USER_OK\<close> set to \<open>1\<close>. The single-file helper starts the same
  process, and it is the first process \<^verbatim>\<open>start\<close> starts.
\<close>

theorem server_command_line:
  assumes "pipe_res w = Some (r, wr)"
  shows "started (emitted s (snd (startServer w s)))
      = [\<lparr>pid = nextPid s,
          pcmd = m_serverCmd s @ '' -auth '' @ m_xauth s @ '' -displayfd '' @ QString_number wr
                   @ '' vt'' @ env_value (sysenv w) ''XDG_VTNR'' @ '' -logfile /dev/null'',
          penv = env_insert ''XORG_RUN_AS_USER_OK'' ''1'' (sysenv w),
          observers = [QuitOnFault]\<rparr>]
    \<and> started (emitted s (snd (startServer_HelperStartXorgUser w s)))
        = started (emitted s (snd (startServer w s)))
    \<and> take 1 (started (emitted s (snd (start w s)))) = started (emitted s (snd (startServer w s)))
    \<and> list_all (\<lambda>p. pcmd p \<noteq> m_serverCmd s) (started (emitted s (snd (startServer w s))))
    \<and> map_of (env_insert ''XORG_RUN_AS_USER_OK'' ''1'' (sysenv w))
        = (map_of (sysenv w))(''XORG_RUN_AS_USER_OK'' \<mapsto> ''1'')"
  using assms
  by (simp add: startServer_started startServer_H_started start_started_server
        server_process_def server_command_def env_insert_def update_conv')

theorem server_command_line_witness:
  "pipe_res example_world = Some (3, 4)
   \<and> started (emitted example_helper (snd (startServer example_world example_helper)))
       = [example_server]
   \<and> started (emitted example_helper
        (snd (startServer_HelperStartXorgUser example_world example_helper))) = [example_server]
   \<and> take 1 (started (emitted example_helper (snd (start example_world example_helper))))
       = [example_server]
   \<and> pcmd example_server \<noteq> m_serverCmd example_helper
   \<and> map_of (penv example_server) ''XORG_RUN_AS_USER_OK'' = Some ''1''
   \<and> map_of (penv example_server) ''XDG_VTNR'' = map_of (sysenv example_world) ''XDG_VTNR''"
proof -
  have p: "pipe_res example_world = Some (3, 4)"
    by (simp add: example_world_def)
  have e: "\<lparr>pid = nextPid example_helper,
          pcmd = m_serverCmd example_helper @ '' -auth '' @ m_xauth example_helper
                   @ '' -displayfd '' @ QString_number 4
                   @ '' vt'' @ env_value (sysenv example_world) ''XDG_VTNR''
                   @ '' -logfile /dev/null'',
          penv = env_insert ''XORG_RUN_AS_USER_OK'' ''1'' (sysenv example_world),
          observers = [QuitOnFault]\<rparr> = example_server"
    using example_server_process by (simp add: server_process_def server_command_def)
  show ?thesis
    using p server_command_line [OF p, of example_helper]
    unfolding e
    by (simp add: example_server_def example_helper_def XOrgUserHelper_new_def
          example_world_def)
qed

end
